theory Spec2Isabelle
  imports Complex_Main "HOL-Library.Word"
begin

unbundle bit_operations_syntax

section \<open>Bytes and base64url transcoding\<close>

text \<open>
  A \<open>Uint8Array\<close> is a list of bytes.  JavaScript strings are modelled as Isabelle
  strings (lists of 8-bit characters).
\<close>

type_synonym bytes = "8 word list"

subsection \<open>The platform's \<open>btoa\<close> and \<open>atob\<close>\<close>

definition b64_alphabet :: string where
  "b64_alphabet = ''ABCDEFGHIJKLMNOPQRSTUVWXYZabcdefghijklmnopqrstuvwxyz0123456789+/''"

definition b64_char :: "nat \<Rightarrow> char" where
  "b64_char n = b64_alphabet ! (n mod 64)"

fun index_of :: "'a \<Rightarrow> 'a list \<Rightarrow> nat option" where
  "index_of x [] = None"
| "index_of x (y # ys) =
     (if x = y then Some 0 else map_option Suc (index_of x ys))"

definition b64_index :: "char \<Rightarrow> nat option" where
  "b64_index c = index_of c b64_alphabet"

text \<open>\<open>btoa\<close> on the binary string of a byte array: three bytes give four characters,
  the last group is padded with \<open>=\<close>.\<close>

fun btoa :: "bytes \<Rightarrow> string" where
  "btoa [] = []"
| "btoa [a] =
     (let n = unat a * 16
      in [b64_char (n div 64), b64_char (n mod 64), CHR ''='', CHR ''=''])"
| "btoa [a, b] =
     (let n = unat a * 1024 + unat b * 4
      in [b64_char (n div 4096), b64_char (n div 64 mod 64), b64_char (n mod 64), CHR ''=''])"
| "btoa (a # b # c # rest) =
     (let n = unat a * 65536 + unat b * 256 + unat c
      in [b64_char (n div 262144), b64_char (n div 4096 mod 64),
          b64_char (n div 64 mod 64), b64_char (n mod 64)] @ btoa rest)"

text \<open>\<open>atob\<close> is the forgiving base64 decoder: ASCII whitespace is dropped, one or two
  trailing \<open>=\<close> are removed when the length is a multiple of four, a length of
  \<open>1 mod 4\<close> or a character outside the alphabet is a failure (the exception that the
  caller catches), and the bits left over in the last group are discarded.\<close>

definition ascii_whitespace :: "char \<Rightarrow> bool" where
  "ascii_whitespace c = (of_char c \<in> {9, 10, 12, 13, 32 :: nat})"

definition strip_padding :: "string \<Rightarrow> string" where
  "strip_padding d =
     (if length d mod 4 = 0 then
        (if 2 \<le> length d \<and> last d = CHR ''='' \<and> last (butlast d) = CHR ''=''
           then butlast (butlast d)
         else if 1 \<le> length d \<and> last d = CHR ''='' then butlast d
         else d)
      else d)"

fun decode_sextets :: "nat list \<Rightarrow> bytes" where
  "decode_sextets (s0 # s1 # s2 # s3 # rest) =
     (let n = s0 * 262144 + s1 * 4096 + s2 * 64 + s3
      in [of_nat (n div 65536), of_nat (n div 256 mod 256), of_nat (n mod 256)]
         @ decode_sextets rest)"
| "decode_sextets [s0, s1, s2] =
     (let n = s0 * 4096 + s1 * 64 + s2
      in [of_nat (n div 1024), of_nat (n div 4 mod 256)])"
| "decode_sextets [s0, s1] = (let n = s0 * 64 + s1 in [of_nat (n div 16)])"
| "decode_sextets _ = []"

definition atob :: "string \<Rightarrow> bytes option" where
  "atob s =
     (let d = strip_padding (filter (\<lambda>c. \<not> ascii_whitespace c) s)
      in if length d mod 4 = 1 then None
         else if list_ex (\<lambda>c. b64_index c = None) d then None
         else Some (decode_sextets (map (\<lambda>c. the (b64_index c)) d)))"

subsection \<open>\<open>bufferToBase64Url\<close> and \<open>base64urlToUint8Array\<close>\<close>

definition bufferToBase64Url :: "bytes \<Rightarrow> string" where
  "bufferToBase64Url buffer =
     concat (map (\<lambda>c. if c = CHR ''+'' then ''-'' else if c = CHR ''/'' then ''_''
                       else if c = CHR ''='' then [] else [c]) (btoa buffer))"

definition emptyArray :: bytes where
  "emptyArray = []"

definition base64urlToUint8Array :: "string \<Rightarrow> bytes" where
  "base64urlToUint8Array base64url =
     (let base64 = map (\<lambda>c. if c = CHR ''-'' then CHR ''+''
                             else if c = CHR ''_'' then CHR ''/'' else c) base64url;
          paddingNeeded = (4 - length base64 mod 4) mod 4;
          padded = base64 @ replicate paddingNeeded (CHR ''='')
      in case atob padded of Some bs \<Rightarrow> bs | None \<Rightarrow> emptyArray)"

section \<open>Constant-time equality\<close>

text \<open>An operand of \<open>timingSafeEqual\<close> is a string (read as base64url) or a byte array.\<close>

datatype operand = Str string | Buf bytes

fun operand_bytes :: "operand \<Rightarrow> bytes" where
  "operand_bytes (Str s) = base64urlToUint8Array s"
| "operand_bytes (Buf b) = b"

text \<open>The loop \<open>result |= a[i] ^ b[i]\<close> over two arrays of one length.  The second
  component of the accumulator counts the byte pairs the loop has visited.\<close>

fun xor_accumulate :: "bytes \<Rightarrow> bytes \<Rightarrow> 32 word \<times> nat \<Rightarrow> 32 word \<times> nat" where
  "xor_accumulate (x # xs) (y # ys) (r, n) =
     xor_accumulate xs ys (r OR (ucast x XOR ucast y), Suc n)"
| "xor_accumulate _ _ acc = acc"

definition timingSafeEqual_trace :: "operand \<Rightarrow> operand \<Rightarrow> bool \<times> nat" where
  "timingSafeEqual_trace expected actual =
     (let a = operand_bytes expected; b = operand_bytes actual
      in if length a \<noteq> length b then (False, 0)
         else (let (r, n) = xor_accumulate a b (0, 0) in (r = 0, n)))"

definition timingSafeEqual :: "operand \<Rightarrow> operand \<Rightarrow> bool" where
  "timingSafeEqual expected actual = fst (timingSafeEqual_trace expected actual)"

section \<open>Numbers and their text\<close>

text \<open>
  A JavaScript number is \<open>NaN\<close>, an infinity or a finite binary64 value.  A finite value is
  given by the rational it denotes.  Whatever is computed, read from text or passed in by a
  caller is rounded to the nearest binary64 value, ties to the even significand
  (\<open>fround\<close>).
\<close>

datatype number = NaN | NegInfinity | Finite rat | PosInfinity

fun bitlen :: "nat \<Rightarrow> nat" where
  "bitlen n = (if n = 0 then 0 else Suc (bitlen (n div 2)))"

declare bitlen.simps [simp del]

definition pow2 :: "int \<Rightarrow> rat" where
  "pow2 e = (if 0 \<le> e then 2 ^ nat e else 1 / 2 ^ nat (- e))"

text \<open>The exponent \<open>e\<close> of a positive value: \<open>2 ^ e \<le> a < 2 ^ (e + 1)\<close>.\<close>

definition binary_exponent :: "rat \<Rightarrow> int" where
  "binary_exponent a =
     (if 1 \<le> a then int (bitlen (nat \<lfloor>a\<rfloor>)) - 1
      else - int (bitlen (nat (\<lceil>1 / a\<rceil> - 1))))"

definition round_half_even :: "rat \<Rightarrow> int" where
  "round_half_even m =
     (let f = \<lfloor>m\<rfloor>; r = m - of_int f
      in if r < 1 / 2 then f else if 1 / 2 < r then f + 1
         else if even f then f else f + 1)"

definition fround :: "rat \<Rightarrow> number" where
  "fround x =
     (if x = 0 then Finite 0
      else (let a = \<bar>x\<bar>;
                e = max (binary_exponent a) (- 1022);
                q = pow2 (e - 52);
                r = of_int (round_half_even (a / q)) * q
            in if pow2 1024 \<le> r then (if x < 0 then NegInfinity else PosInfinity)
               else Finite (if x < 0 then - r else r)))"

text \<open>\<open>a <= b\<close> on numbers: false whenever an operand is \<open>NaN\<close>.\<close>

fun number_le :: "number \<Rightarrow> number \<Rightarrow> bool" where
  "number_le NaN _ = False"
| "number_le _ NaN = False"
| "number_le NegInfinity _ = True"
| "number_le _ PosInfinity = True"
| "number_le (Finite a) (Finite b) = (a \<le> b)"
| "number_le _ _ = False"

text \<open>\<open>a - b\<close> and \<open>a + b\<close> for a finite \<open>a\<close>.\<close>

fun number_sub :: "rat \<Rightarrow> number \<Rightarrow> number" where
  "number_sub a NaN = NaN"
| "number_sub a NegInfinity = PosInfinity"
| "number_sub a (Finite b) = fround (a - b)"
| "number_sub a PosInfinity = NegInfinity"

definition number_add :: "rat \<Rightarrow> rat \<Rightarrow> number" where
  "number_add a b = fround (a + b)"

subsection \<open>\<open>String(n)\<close>\<close>

definition digit_char :: "nat \<Rightarrow> char" where
  "digit_char d = char_of (48 + d mod 10)"

fun digits :: "nat \<Rightarrow> string" where
  "digits n = (if n < 10 then [digit_char n] else digits (n div 10) @ [digit_char (n mod 10)])"

declare digits.simps [simp del]

definition pow10 :: "int \<Rightarrow> rat" where
  "pow10 e = (if 0 \<le> e then 10 ^ nat e else 1 / 10 ^ nat (- e))"

text \<open>The decimal exponent \<open>n\<close> of a positive value: \<open>10 ^ (n - 1) \<le> a < 10 ^ n\<close>.\<close>

definition decimal_exponent :: "rat \<Rightarrow> int" where
  "decimal_exponent a =
     (if 1 \<le> a then int (length (digits (nat \<lfloor>a\<rfloor>)))
      else 1 - int (length (digits (nat (\<lceil>1 / a\<rceil> - 1)))))"

text \<open>
  The digits of a positive number: the least \<open>k\<close> and an \<open>s\<close> of \<open>k\<close> digits such that
  \<open>s * 10 ^ (n - k)\<close> reads back as the number; of two such \<open>s\<close> the one nearer to the number
  (the even one when they are equally near).  The first argument bounds the search; seventeen
  digits identify every binary64 value.  The result is \<open>(n, s)\<close>.
\<close>

fun shortest :: "nat \<Rightarrow> nat \<Rightarrow> rat \<Rightarrow> int \<Rightarrow> int \<times> nat" where
  "shortest 0 k a n = (n, nat \<lfloor>a / pow10 (n - int k)\<rfloor>)"
| "shortest (Suc fuel) k a n =
     (let unit = pow10 (n - int k);
          lo = nat \<lfloor>a / unit\<rfloor>;
          hi = Suc lo;
          lo_ok = (fround (of_nat lo * unit) = Finite a);
          hi_ok = (fround (of_nat hi * unit) = Finite a);
          lo_near = (a - of_nat lo * unit < of_nat hi * unit - a
                     \<or> a - of_nat lo * unit = of_nat hi * unit - a \<and> even lo)
      in if lo_ok \<and> (\<not> hi_ok \<or> lo_near) then (n, lo)
         else if hi_ok then (if hi = 10 ^ k then (n + 1, 1) else (n, hi))
         else shortest fuel (Suc k) a n)"

text \<open>The text for the digits \<open>s\<close> and the decimal exponent \<open>n\<close>: plain digits when
  \<open>n\<close> is at most 21 and above \<open>-6\<close>, exponent notation otherwise.\<close>

definition number_text :: "int \<Rightarrow> nat \<Rightarrow> string" where
  "number_text n s =
     (let ds = digits s; k = int (length ds)
      in if k \<le> n \<and> n \<le> 21 then ds @ replicate (nat (n - k)) (CHR ''0'')
         else if 0 < n \<and> n \<le> 21 then take (nat n) ds @ CHR ''.'' # drop (nat n) ds
         else if - 6 < n \<and> n \<le> 0 then ''0.'' @ replicate (nat (- n)) (CHR ''0'') @ ds
         else (let e = n - 1;
                   et = (if 0 \<le> e then CHR ''+'' else CHR ''-'') # digits (nat \<bar>e\<bar>)
               in if k = 1 then ds @ CHR ''e'' # et
                  else take 1 ds @ CHR ''.'' # drop 1 ds @ CHR ''e'' # et))"

text \<open>\<open>String(n)\<close>.  A finite value stands for the binary64 value nearest to it.\<close>

definition String_of_number :: "number \<Rightarrow> string" where
  "String_of_number x =
     (case (case x of Finite r \<Rightarrow> fround r | _ \<Rightarrow> x) of
        NaN \<Rightarrow> ''NaN''
      | PosInfinity \<Rightarrow> ''Infinity''
      | NegInfinity \<Rightarrow> ''-Infinity''
      | Finite d \<Rightarrow>
          (if d = 0 then ''0''
           else (let a = \<bar>d\<bar>; (n, s) = shortest 17 1 a (decimal_exponent a)
                 in (if d < 0 then ''-'' else []) @ number_text n s)))"

subsection \<open>\<open>Number(s)\<close> on a string\<close>

definition is_digit :: "char \<Rightarrow> bool" where
  "is_digit c = (48 \<le> (of_char c :: nat) \<and> (of_char c :: nat) \<le> 57)"

definition digit_val :: "char \<Rightarrow> nat" where
  "digit_val c = of_char c - 48"

definition digits_val :: "string \<Rightarrow> nat" where
  "digits_val s = foldl (\<lambda>a c. 10 * a + digit_val c) 0 s"

definition js_whitespace :: "char \<Rightarrow> bool" where
  "js_whitespace c = (of_char c \<in> {9, 10, 11, 12, 13, 32, 160 :: nat})"

definition trim :: "string \<Rightarrow> string" where
  "trim s = rev (dropWhile js_whitespace (rev (dropWhile js_whitespace s)))"

definition radix_digit :: "char \<Rightarrow> nat option" where
  "radix_digit c =
     (let n = (of_char c :: nat)
      in if 48 \<le> n \<and> n \<le> 57 then Some (n - 48)
         else if 97 \<le> n \<and> n \<le> 102 then Some (n - 87)
         else if 65 \<le> n \<and> n \<le> 70 then Some (n - 55)
         else None)"

definition radix_literal :: "nat \<Rightarrow> string \<Rightarrow> number" where
  "radix_literal b s =
     (if s \<noteq> [] \<and> list_all (\<lambda>c. case radix_digit c of None \<Rightarrow> False | Some d \<Rightarrow> d < b) s
      then fround (of_nat (foldl (\<lambda>a c. b * a + the (radix_digit c)) 0 s))
      else NaN)"

definition exponent_part :: "string \<Rightarrow> int option" where
  "exponent_part s =
     (case s of
        [] \<Rightarrow> Some 0
      | c # r \<Rightarrow>
          (if c = CHR ''e'' \<or> c = CHR ''E'' then
             (let neg = (r \<noteq> [] \<and> hd r = CHR ''-'');
                  ds = (if r \<noteq> [] \<and> (hd r = CHR ''-'' \<or> hd r = CHR ''+'') then tl r else r)
              in if ds \<noteq> [] \<and> list_all is_digit ds
                 then Some (if neg then - int (digits_val ds) else int (digits_val ds))
                 else None)
           else None))"

definition decimal_literal :: "string \<Rightarrow> number" where
  "decimal_literal s =
     (if s = ''Infinity'' then PosInfinity
      else (let ip = takeWhile is_digit s; r1 = dropWhile is_digit s;
                dotted = (r1 \<noteq> [] \<and> hd r1 = CHR ''.'');
                fp = (if dotted then takeWhile is_digit (tl r1) else []);
                r2 = (if dotted then dropWhile is_digit (tl r1) else r1)
            in if ip = [] \<and> fp = [] then NaN
               else (case exponent_part r2 of
                       None \<Rightarrow> NaN
                     | Some e \<Rightarrow>
                         fround (of_nat (digits_val (ip @ fp)) * pow10 (e - int (length fp))))))"

fun number_neg :: "number \<Rightarrow> number" where
  "number_neg NaN = NaN"
| "number_neg NegInfinity = PosInfinity"
| "number_neg (Finite a) = Finite (- a)"
| "number_neg PosInfinity = NegInfinity"

definition Number_of_string :: "string \<Rightarrow> number" where
  "Number_of_string s =
     (let t = trim s
      in if t = [] then Finite 0
         else if take 2 t = ''0x'' \<or> take 2 t = ''0X'' then radix_literal 16 (drop 2 t)
         else if take 2 t = ''0o'' \<or> take 2 t = ''0O'' then radix_literal 8 (drop 2 t)
         else if take 2 t = ''0b'' \<or> take 2 t = ''0B'' then radix_literal 2 (drop 2 t)
         else if hd t = CHR ''+'' then decimal_literal (tl t)
         else if hd t = CHR ''-'' then number_neg (decimal_literal (tl t))
         else decimal_literal t)"

section \<open>Values passed as options and arguments\<close>

text \<open>The primitive values a caller may pass where a number or a flag is expected, with the
  conversions \<open>Number(v)\<close> and \<open>!!v\<close>.  A finite number that is passed stands for the binary64
  value nearest to it.\<close>

datatype js = JsUndefined | JsNull | JsBoolean bool | JsNumber number | JsString string

definition truthy :: "number \<Rightarrow> bool" where
  "truthy n = (n \<noteq> NaN \<and> n \<noteq> Finite 0)"

fun ToNumber :: "js \<Rightarrow> number" where
  "ToNumber JsUndefined = NaN"
| "ToNumber JsNull = Finite 0"
| "ToNumber (JsBoolean b) = Finite (if b then 1 else 0)"
| "ToNumber (JsNumber n) = (case n of Finite r \<Rightarrow> fround r | _ \<Rightarrow> n)"
| "ToNumber (JsString s) = Number_of_string s"

fun ToBoolean :: "js \<Rightarrow> bool" where
  "ToBoolean JsUndefined = False"
| "ToBoolean JsNull = False"
| "ToBoolean (JsBoolean b) = b"
| "ToBoolean (JsNumber n) = truthy (ToNumber (JsNumber n))"
| "ToBoolean (JsString s) = (s \<noteq> [])"

text \<open>A parameter with a default value: the default replaces \<open>undefined\<close> only.\<close>

fun or_default :: "js \<Rightarrow> js \<Rightarrow> js" where
  "or_default d JsUndefined = d"
| "or_default d v = v"

section \<open>The engine's numeric options\<close>

text \<open>\<open>numeric(value, preset, min, max)\<close>; its argument is \<open>Number(value)\<close>.\<close>

definition numeric :: "number \<Rightarrow> rat \<Rightarrow> rat \<Rightarrow> rat \<Rightarrow> rat" where
  "numeric v preset mn mx =
     (case v of
        NaN \<Rightarrow> preset
      | NegInfinity \<Rightarrow> mn
      | PosInfinity \<Rightarrow> mx
      | Finite n \<Rightarrow> (if n < mn then mn else if n > mx then mx else n))"

text \<open>\<open>str.slice(0, end)\<close>: the end is truncated to a whole number; a negative end counts
  from the end of the string.\<close>

definition slice0 :: "string \<Rightarrow> rat \<Rightarrow> string" where
  "slice0 str e =
     (let t = (if e < 0 then \<lceil>e\<rceil> else \<lfloor>e\<rfloor>)
      in if t < 0 then take (nat (int (length str) + t)) str else take (nat t) str)"

section \<open>Exceptions, objects and the platform\<close>

text \<open>A function that can throw returns \<open>exn + 'a\<close>; \<open>Inl\<close> is the exception thrown.\<close>

datatype exn = Error string | TypeError

text \<open>
  Reading \<open>obj[name]\<close> on an object literal finds an own property, or else what
  \<open>Object.prototype\<close> provides under that name (a function or object, which is truthy but
  is none of the values that were stored), or else \<open>undefined\<close>.
\<close>

datatype 'a slot = Missing | Foreign | Own 'a

definition Object_prototype_names :: "string list" where
  "Object_prototype_names =
     [''constructor'', ''__defineGetter__'', ''__defineSetter__'', ''hasOwnProperty'',
      ''__lookupGetter__'', ''__lookupSetter__'', ''isPrototypeOf'', ''propertyIsEnumerable'',
      ''toString'', ''valueOf'', ''__proto__'', ''toLocaleString'']"

fun falsy :: "'a slot \<Rightarrow> bool" where
  "falsy Missing = True"
| "falsy _ = False"

definition object_get :: "(string \<rightharpoonup> 'a) \<Rightarrow> string \<Rightarrow> 'a slot" where
  "object_get m name =
     (case m name of
        Some x \<Rightarrow> Own x
      | None \<Rightarrow> if name \<in> set Object_prototype_names then Foreign else Missing)"

text \<open>
  \<open>crypto.subtle.sign\<close> with an HMAC key (hash name, key material, data) and the bytes
  that \<open>crypto.getRandomValues\<close> writes belong to the platform and are parameters.
  \<open>getRandomValues\<close> fills an array of the given length.  \<open>clearBuffer\<close> overwrites an array
  with random bytes and then with zeros; the platform is taken to accept every array it is
  given there.
\<close>

record platform =
  hmac :: "string \<Rightarrow> bytes \<Rightarrow> bytes \<Rightarrow> bytes"
  random :: "nat \<Rightarrow> 8 word"

definition getRandomValues :: "platform \<Rightarrow> nat \<Rightarrow> bytes" where
  "getRandomValues P n = map (random P) [0..<n]"

definition clearBuffer :: "bytes \<Rightarrow> bytes" where
  "clearBuffer buffer = replicate (length buffer) 0"

text \<open>\<open>TextEncoder.encode\<close>: UTF-8 of a string of 8-bit characters.\<close>

definition stringToBuffer :: "string \<Rightarrow> bytes" where
  "stringToBuffer str =
     concat (map (\<lambda>c. let n = (of_char c :: nat)
                       in if n < 128 then [of_nat n]
                          else [of_nat (192 + n div 64), of_nat (128 + n mod 64)]) str)"

section \<open>Codecs\<close>

record 'v codec =
  encode :: "'v \<Rightarrow> exn + bytes"
  decode :: "bytes \<Rightarrow> exn + 'v"

text \<open>The static registry \<open>Hwtr.#codecs\<close>: the codecs registered under their names
  (the initial entry \<open>j: null\<close> reads as no codec).\<close>

type_synonym 'v registry = "string \<rightharpoonup> 'v codec"

definition codecs_get :: "'v registry \<Rightarrow> string \<Rightarrow> 'v codec slot" where
  "codecs_get reg name = object_get reg name"

section \<open>Keys\<close>

text \<open>
  The secret of a key: a string, a typed-array view (its whole underlying buffer, its byte
  offset and its byte length), an \<open>ArrayBuffer\<close>, or \<open>null\<close>.  Every view and buffer is taken
  to have memory of its own.
\<close>

datatype secret =
  SecretString string | SecretView bytes nat nat | SecretBuffer bytes | SecretNull

text \<open>An imported HMAC key of the platform: the hash it was imported for and its material.\<close>

type_synonym cryptokey = "string \<times> bytes"

text \<open>A key object as \<open>#keys\<close> holds it: its \<open>id\<close>, its \<open>key\<close> (\<open>Own\<close> for a key of the
  platform, \<open>Foreign\<close> for any other truthy value), and the names of its truthy properties.\<close>

record key =
  key_id :: string
  key_handle :: "cryptokey slot"
  key_props :: "string list"

text \<open>A key as the caller configures it.  \<open>spec_keyImport\<close> is the key object that a pending
  import given by the caller resolves to.\<close>

record key_spec =
  spec_id :: string
  spec_secret :: secret
  spec_created :: bool
  spec_keyImport :: "key option"
  spec_key :: "cryptokey slot"

record keyring =
  kr_current :: string
  kr_keys :: "key_spec list"

text \<open>The object \<open>#keys\<close>.  Assigning to \<open>__proto__\<close> installs the assigned object as
  prototype instead of creating a property; later reads fall through to it and then to
  \<open>Object.prototype\<close>.\<close>

record keys_object =
  own_keys :: "string \<rightharpoonup> key"
  proto_key :: "key option"

definition keys_empty :: keys_object where
  "keys_empty = \<lparr>own_keys = Map.empty, proto_key = None\<rparr>"

definition keys_set :: "keys_object \<Rightarrow> string \<Rightarrow> key \<Rightarrow> keys_object" where
  "keys_set ko name k =
     (if name = ''__proto__'' then ko\<lparr>proto_key := Some k\<rparr>
      else ko\<lparr>own_keys := (own_keys ko)(name \<mapsto> k)\<rparr>)"

definition keys_get :: "keys_object \<Rightarrow> string \<Rightarrow> key slot" where
  "keys_get ko name =
     (case own_keys ko name of
        Some k \<Rightarrow> Own k
      | None \<Rightarrow>
          (case proto_key ko of
             None \<Rightarrow> if name \<in> set Object_prototype_names then Foreign else Missing
           | Some k \<Rightarrow>
               if name = ''__proto__'' then Own k
               else if name \<in> set (key_props k) then Foreign
               else if name \<in> set Object_prototype_names then Foreign
               else Missing))"

text \<open>The array \<open>bfr\<close> that \<open>importKey\<close> makes of a secret, if it makes one: the bytes of a
  string, or the whole buffer under a view or \<open>ArrayBuffer\<close> of non-zero byte length.\<close>

definition stringToBuffer_secret :: "secret \<Rightarrow> bytes option" where
  "stringToBuffer_secret s =
     (case s of
        SecretString str \<Rightarrow> Some (stringToBuffer str)
      | SecretView buffer byteOffset byteLength \<Rightarrow> if byteLength \<noteq> 0 then Some buffer else None
      | SecretBuffer buffer \<Rightarrow> if buffer \<noteq> [] then Some buffer else None
      | SecretNull \<Rightarrow> None)"

text \<open>The caller's secret after \<open>clearBuffer(bfr)\<close>: a view or buffer shares its memory
  with \<open>bfr\<close>.\<close>

definition cleared :: "secret \<Rightarrow> secret" where
  "cleared s =
     (case s of
        SecretView buffer byteOffset byteLength \<Rightarrow>
          if byteLength \<noteq> 0 then SecretView (clearBuffer buffer) byteOffset byteLength else s
      | SecretBuffer buffer \<Rightarrow> SecretBuffer (clearBuffer buffer)
      | _ \<Rightarrow> s)"

definition key_id_invalid :: "string \<Rightarrow> nat \<Rightarrow> string" where
  "key_id_invalid name i =
     ''Hwtr key id invalid: '' @ [CHR 0x22] @ name @ [CHR 0x22] @ '' at index '' @ digits i
     @ (if CHR ''.'' \<in> set name then '' has a '' @ [CHR 0x27, CHR ''.'', CHR 0x27] else [])"

text \<open>
  \<open>importKey(config, i)\<close> on an engine with the given hash.  The result is the key object,
  or the message of the error thrown, together with the caller's secret as the call leaves
  it.  A configuration that carries a \<open>key\<close> is returned as it is.
\<close>

definition importKey :: "string \<Rightarrow> key_spec \<Rightarrow> nat \<Rightarrow> (string + key) \<times> secret" where
  "importKey hash config i =
     (let name = spec_id config; secret = spec_secret config
      in if name = [] \<or> CHR ''.'' \<in> set name then (Inl (key_id_invalid name i), secret)
         else if \<not> falsy (spec_key config) then
           (Inr \<lparr>key_id = name, key_handle = spec_key config,
                 key_props = [''id'', ''key'']
                   @ (if secret = SecretString [] \<or> secret = SecretNull then [] else [''secret''])
                   @ (if spec_created config then [''created''] else [])
                   @ (if spec_keyImport config = None then [] else [''keyImport''])\<rparr>,
            secret)
         else (case spec_keyImport config of
                 Some k \<Rightarrow> (Inr k, secret)
               | None \<Rightarrow>
                   (case stringToBuffer_secret secret of
                      None \<Rightarrow>
                        (Inl ''Hwtr requires a secret that is at least 32 characters or bytes'',
                         secret)
                    | Some bfr \<Rightarrow>
                        (if length bfr < 32
                         then Inl ''Hwtr requires a secret that is at least 32 characters or bytes''
                         else Inr \<lparr>key_id = name, key_handle = Own (hash, bfr),
                                   key_props = [''id'', ''created'', ''key'']\<rparr>,
                         cleared secret))))"

text \<open>\<open>Hwtr.generateKey({id: 'fallback'}, false)\<close>: thirty-two random bytes.\<close>

definition fallbackKey :: "platform \<Rightarrow> key_spec" where
  "fallbackKey P =
     \<lparr>spec_id = ''fallback'',
      spec_secret = SecretView (getRandomValues P 32) 0 32,
      spec_created = True, spec_keyImport = None, spec_key = Missing\<rparr>"

text \<open>
  One key of the batch, with its index: a key whose id has a dot is refused before
  \<open>importKey\<close>; a failed import is skipped; an imported key is stored under its id and
  becomes the current key when its id is the requested one or no key has been chosen yet.
  The state is the object \<open>#keys\<close>, the current key, the number of imports, and the
  configurations passed so far as the calls leave them.  The imports are taken to complete
  in the order of the list.
\<close>

definition import_step ::
  "string \<Rightarrow> string \<Rightarrow> keys_object \<times> key option \<times> nat \<times> key_spec list \<Rightarrow> nat \<times> key_spec
     \<Rightarrow> keys_object \<times> key option \<times> nat \<times> key_spec list" where
  "import_step hash current st ispec =
     (case st of (ko, cur, n, passed) \<Rightarrow>
        (case ispec of (i, spec) \<Rightarrow>
           if CHR ''.'' \<in> set (spec_id spec) then (ko, cur, n, passed @ [spec])
           else (case importKey hash spec i of
                   (Inl e, s) \<Rightarrow> (ko, cur, n, passed @ [spec\<lparr>spec_secret := s\<rparr>])
                 | (Inr k, s) \<Rightarrow>
                     (keys_set ko (key_id k) k,
                      (if key_id k = current \<or> cur = None then Some k else cur),
                      Suc n, passed @ [spec\<lparr>spec_secret := s\<rparr>]))))"

definition import_all ::
  "string \<Rightarrow> string \<Rightarrow> key_spec list \<Rightarrow> keys_object \<times> key option \<times> nat \<times> key_spec list" where
  "import_all hash current ks =
     foldl (import_step hash current) (keys_empty, None, 0, []) (zip [0..<length ks] ks)"

text \<open>
  \<open>importKeys(expectedKeys)\<close> run to its end: the object \<open>#keys\<close> or the error thrown, and
  the caller's key configurations as the imports leave them.
\<close>

definition importKeys :: "platform \<Rightarrow> string \<Rightarrow> keyring \<Rightarrow> (exn + keys_object) \<times> key_spec list" where
  "importKeys P hash expectedKeys =
     (let provided = kr_keys expectedKeys;
          ks = (if provided = [] then [fallbackKey P] else provided);
          current = (if provided = [] then ''fallback'' else kr_current expectedKeys)
      in case import_all hash current ks of (ko, cur, n, passed) \<Rightarrow>
         (if n = 0 then
            (case fst (importKey hash (fallbackKey P) 0) of
               Inl m \<Rightarrow> Inl (Error (''Unable to create fallback key: '' @ m))
             | Inr k \<Rightarrow> Inr (keys_set (keys_set ko (key_id k) k) ''current'' k))
          else (case cur of
                  None \<Rightarrow> Inl (Error ''No valid keys available'')
                | Some k \<Rightarrow> Inr (keys_set ko ''current'' k)),
          if provided = [] then [] else passed))"

text \<open>
  The object \<open>#keys\<close> at the moment the promise of \<open>ready()\<close>, called right after the
  constructor, is fulfilled.  With keys of which at least one is imported, that is after
  \<open>importKeys\<close> has finished.  Without keys, or when every import fails, \<open>ready()\<close> is
  fulfilled while the fallback key is still being imported, and the object is empty.
\<close>

definition ready :: "string \<Rightarrow> keyring \<Rightarrow> keys_object" where
  "ready hash expectedKeys =
     (case import_all hash (kr_current expectedKeys) (kr_keys expectedKeys) of
        (ko, cur, n, passed) \<Rightarrow>
          (case cur of
             None \<Rightarrow> keys_empty
           | Some k \<Rightarrow> if n = 0 then keys_empty else keys_set ko ''current'' k))"

section \<open>The engine\<close>

record hwtr =
  errorOnInvalid :: bool
  errorOnExpired :: bool
  errorOnEncoding :: bool
  errorOnGenerate :: bool
  expiresInSeconds :: rat
  leewaySeconds :: rat
  maxTokenSizeBytes :: rat
  signatureSize :: rat
  algorithm :: string
  format :: string
  keys :: keys_object

definition prefix :: string where
  "prefix = ''hwt''"

definition separator :: char where
  "separator = CHR ''.''"

text \<open>The options of the constructor as the caller passes them; \<open>JsUndefined\<close> and \<open>None\<close>
  stand for an option that is left out.\<close>

record options =
  opt_signatureSize :: js
  opt_expiresInSeconds :: js
  opt_errors :: js
  opt_errorOnInvalid :: js
  opt_errorOnExpired :: js
  opt_errorOnGenerate :: js
  opt_errorOnEncoding :: js
  opt_leewaySeconds :: js
  opt_maxTokenSizeBytes :: js
  opt_format :: "string option"
  opt_hash :: "string option"

definition default_options :: options where
  "default_options =
     \<lparr>opt_signatureSize = JsUndefined, opt_expiresInSeconds = JsUndefined,
      opt_errors = JsUndefined, opt_errorOnInvalid = JsUndefined,
      opt_errorOnExpired = JsUndefined, opt_errorOnGenerate = JsUndefined,
      opt_errorOnEncoding = JsUndefined, opt_leewaySeconds = JsUndefined,
      opt_maxTokenSizeBytes = JsUndefined, opt_format = None, opt_hash = None\<rparr>"

definition supports :: "(string \<times> rat \<times> rat) list" where
  "supports = [(''SHA-256'', 22, 43), (''SHA-384'', 32, 64), (''SHA-512'', 43, 86)]"

text \<open>The constructor, with the object \<open>#keys\<close> given.\<close>

definition configure :: "'v registry \<Rightarrow> options \<Rightarrow> keys_object \<Rightarrow> hwtr" where
  "configure reg opts ko =
     (let fmt = (case opt_format opts of
                   None \<Rightarrow> ''j''
                 | Some name \<Rightarrow> (case codecs_get reg name of Own c \<Rightarrow> name | _ \<Rightarrow> ''j''));
          errors = ToBoolean (or_default (JsBoolean False) (opt_errors opts));
          sup = (case find (\<lambda>(name, mn, mx). Some name = opt_hash opts) supports of
                   Some e \<Rightarrow> e | None \<Rightarrow> hd supports);
          sz = or_default (JsNumber (Finite 0)) (opt_signatureSize opts);
          size = (case sup of (name, mn, mx) \<Rightarrow>
                    (let n = (if ToBoolean sz then numeric (ToNumber sz) 0 mn mx else 0)
                     in if n = mx then 0 else n))
      in \<lparr>errorOnInvalid =
            (errors \<or> ToBoolean (or_default (JsBoolean False) (opt_errorOnInvalid opts))),
          errorOnExpired =
            (errors \<or> ToBoolean (or_default (JsBoolean False) (opt_errorOnExpired opts))),
          errorOnEncoding =
            (errors \<or> ToBoolean (or_default (JsBoolean True) (opt_errorOnEncoding opts))),
          errorOnGenerate = (opt_errorOnGenerate opts \<noteq> JsBoolean False),
          expiresInSeconds =
            numeric (ToNumber (or_default (JsNumber (Finite 60)) (opt_expiresInSeconds opts)))
              60 0 31557600,
          leewaySeconds =
            numeric (ToNumber (or_default (JsNumber (Finite 1)) (opt_leewaySeconds opts))) 1 0 30,
          maxTokenSizeBytes =
            numeric (ToNumber (or_default (JsNumber (Finite 2048)) (opt_maxTokenSizeBytes opts)))
              2048 512 5120,
          signatureSize = size,
          algorithm = fst sup,
          format = fmt,
          keys = ko\<rparr>)"

text \<open>\<open>Hwtr.factory(keys, options)\<close>: the constructor followed by \<open>ready()\<close>; the engine
  as the caller receives it.\<close>

definition factory :: "'v registry \<Rightarrow> keyring \<Rightarrow> options \<Rightarrow> hwtr" where
  "factory reg expectedKeys opts =
     (let eng = configure reg opts keys_empty
      in eng\<lparr>keys := ready (algorithm eng) expectedKeys\<rparr>)"

subsection \<open>Expiry\<close>

record time_check =
  t_expires :: number
  t_expired :: bool
  t_validTime :: bool
  t_withinLeeway :: "bool option"

definition isExpired :: "hwtr \<Rightarrow> int \<Rightarrow> string \<Rightarrow> time_check" where
  "isExpired eng now val =
     (let n = Number_of_string val;
          expiry = (if truthy n then n else Finite 0);
          expired = number_le expiry (Finite (of_int now))
      in if \<not> expired
         then \<lparr>t_expires = expiry, t_expired = expired, t_validTime = True,
               t_withinLeeway = None\<rparr>
         else (let withinLeeway =
                     (expired \<and> number_le (number_sub (of_int now) expiry)
                                   (Finite (leewaySeconds eng)))
               in \<lparr>t_expires = expiry, t_expired = expired,
                   t_validTime = (\<not> expired \<or> withinLeeway),
                   t_withinLeeway = Some withinLeeway\<rparr>))"

subsection \<open>Splitting and joining\<close>

fun split_on :: "char \<Rightarrow> string \<Rightarrow> string list" where
  "split_on c [] = [[]]"
| "split_on c (x # xs) =
     (if x = c then [] # split_on c xs
      else (let r = split_on c xs in (x # hd r) # tl r))"

fun join_with :: "char \<Rightarrow> string list \<Rightarrow> string" where
  "join_with c [] = []"
| "join_with c [p] = p"
| "join_with c (p # ps) = p @ c # join_with c ps"

subsection \<open>Signing\<close>

datatype generated = Signed string string | ReturnedError

text \<open>\<open>generate(text, {key})\<close>: signing fails when \<open>key.key\<close> is not a key of the
  platform.\<close>

definition generate :: "platform \<Rightarrow> hwtr \<Rightarrow> string \<Rightarrow> key slot \<Rightarrow> exn + generated" where
  "generate P eng text k =
     (case (case k of
              Own ky \<Rightarrow> (case key_handle ky of
                           Own h \<Rightarrow> Some (h, key_id ky)
                         | _ \<Rightarrow> None)
            | _ \<Rightarrow> None) of
        Some (h, kid) \<Rightarrow>
          (let dataBuffer = stringToBuffer text;
               mac = hmac P (fst h) (snd h) dataBuffer;
               sig = bufferToBase64Url mac;
               sig' = (if signatureSize eng \<noteq> 0 then slice0 sig (signatureSize eng) else sig)
           in Inr (Signed sig' kid))
      | None \<Rightarrow>
          (if errorOnGenerate eng then Inl (Error ''hwt failed to generate HMAC signature'')
           else Inr ReturnedError))"

subsection \<open>Creation\<close>

definition codec_encode :: "'v codec slot \<Rightarrow> 'v \<Rightarrow> exn + bytes" where
  "codec_encode c v = (case c of Own cd \<Rightarrow> encode cd v | _ \<Rightarrow> Inl TypeError)"

definition codec_decode :: "'v codec slot \<Rightarrow> bytes \<Rightarrow> exn + 'v" where
  "codec_decode c b = (case c of Own cd \<Rightarrow> decode cd b | _ \<Rightarrow> Inl TypeError)"

text \<open>The signing input of \<open>_createWith\<close>: \<open>[exp, format, item]\<close>, and the encoded hidden
  input after them when there is one.\<close>

definition signing_input ::
  "'v codec slot \<Rightarrow> string list \<Rightarrow> 'v option \<Rightarrow> exn + string list" where
  "signing_input cd payload dataHidden =
     (case dataHidden of
        None \<Rightarrow> Inr payload
      | Some h \<Rightarrow>
          (case codec_encode cd h of
             Inl e \<Rightarrow> Inl e
           | Inr hid \<Rightarrow> Inr (payload @ [bufferToBase64Url hid])))"

text \<open>The token before the size check: \<open>[prefix, sig, kid, exp, format, item]\<close> joined.\<close>

definition assemble ::
  "'v registry \<Rightarrow> platform \<Rightarrow> hwtr \<Rightarrow> number \<Rightarrow> 'v \<Rightarrow> 'v option \<Rightarrow> exn + string" where
  "assemble reg P eng epoch dataShown dataHidden =
     (let cd = codecs_get reg (format eng)
      in case codec_encode cd dataShown of
           Inl e \<Rightarrow> Inl e
         | Inr shown \<Rightarrow>
             (let item = bufferToBase64Url shown;
                  payload = [String_of_number epoch, format eng, item]
              in case signing_input cd payload dataHidden of
                   Inl e \<Rightarrow> Inl e
                 | Inr signing \<Rightarrow>
                     (case generate P eng (join_with separator signing)
                             (keys_get (keys eng) ''current'') of
                        Inl e \<Rightarrow> Inl e
                      | Inr ReturnedError \<Rightarrow> Inl TypeError
                      | Inr (Signed sig kid) \<Rightarrow>
                          Inr (join_with separator ([prefix, sig, kid] @ payload)))))"

definition size_exceeded :: "rat \<Rightarrow> string" where
  "size_exceeded mx = ''hwt size exceeded '' @ String_of_number (Finite mx) @ '' bytes''"

text \<open>\<open>_createWith\<close>.\<close>

definition internal_createWith ::
  "'v registry \<Rightarrow> platform \<Rightarrow> hwtr \<Rightarrow> number \<Rightarrow> 'v \<Rightarrow> 'v option \<Rightarrow> exn + string" where
  "internal_createWith reg P eng epoch dataShown dataHidden =
     (case assemble reg P eng epoch dataShown dataHidden of
        Inl e \<Rightarrow> Inl e
      | Inr token \<Rightarrow>
          (let mx = maxTokenSizeBytes eng
           in if of_nat (length token) > mx then
                (if errorOnInvalid eng then Inl (Error (size_exceeded mx))
                 else Inr (slice0 token mx))
              else Inr token))"

definition create ::
  "'v registry \<Rightarrow> platform \<Rightarrow> hwtr \<Rightarrow> int \<Rightarrow> 'v \<Rightarrow> 'v option \<Rightarrow> exn + string" where
  "create reg P eng now dataShown dataHidden =
     internal_createWith reg P eng (number_add (of_int now) (expiresInSeconds eng))
       dataShown dataHidden"

text \<open>\<open>expiresAt(secondsForward = this.#expiresInSeconds)\<close>.\<close>

definition lifetime :: "hwtr \<Rightarrow> js \<Rightarrow> rat" where
  "lifetime eng secondsForward =
     numeric (case secondsForward of
                JsUndefined \<Rightarrow> Finite (expiresInSeconds eng)
              | v \<Rightarrow> ToNumber v)
       1 1 31557600"

definition expiresAt :: "hwtr \<Rightarrow> int \<Rightarrow> js \<Rightarrow> number" where
  "expiresAt eng now secondsForward = number_add (of_int now) (lifetime eng secondsForward)"

definition createWith ::
  "'v registry \<Rightarrow> platform \<Rightarrow> hwtr \<Rightarrow> int \<Rightarrow> js \<Rightarrow> 'v \<Rightarrow> 'v option \<Rightarrow> exn + string" where
  "createWith reg P eng now expiresIn dataShown dataHidden =
     internal_createWith reg P eng (expiresAt eng now expiresIn) dataShown dataHidden"

subsection \<open>Verification\<close>

record 'v result =
  ok :: bool
  data :: "'v option"
  error :: "string option"
  validTime :: "bool option"
  expired :: "bool option"
  expires :: "number option"
  withinLeeway :: "bool option"

text \<open>A failure: thrown when the flag is set, otherwise returned in the result.\<close>

definition fail :: "bool \<Rightarrow> 'v result \<Rightarrow> string \<Rightarrow> exn + 'v result" where
  "fail strict res msg = (if strict then Inl (Error msg) else Inr (res\<lparr>error := Some msg\<rparr>))"

definition unknown_encoding :: "string \<Rightarrow> string" where
  "unknown_encoding fmt = ''hwt unknown encoding '' @ [CHR 0x22] @ fmt @ [CHR 0x22]"

text \<open>The steps of \<open>verify\<close> after the time check: codec, hidden input, key, signature,
  payload.\<close>

definition verify_signed ::
  "'v registry \<Rightarrow> platform \<Rightarrow> hwtr \<Rightarrow> 'v result \<Rightarrow> string \<Rightarrow> string \<Rightarrow> string \<Rightarrow> string
     \<Rightarrow> string \<Rightarrow> 'v option \<Rightarrow> exn + 'v result" where
  "verify_signed reg P eng res sig kid epoch fmt dataShown dataHidden =
     (let cd = codecs_get reg (if fmt = [] then format eng else fmt)
      in if falsy cd then fail (errorOnEncoding eng) res (unknown_encoding fmt)
         else (case signing_input cd [epoch, fmt, dataShown] dataHidden of
                 Inl e \<Rightarrow> fail (errorOnEncoding eng) res ''hwt data encoding failed''
               | Inr hidden \<Rightarrow>
                   (let k = keys_get (keys eng) kid
                    in if falsy k then fail (errorOnInvalid eng) res ''hwt unknown key''
                       else (case generate P eng (join_with separator hidden) k of
                               Inl e \<Rightarrow> Inl e
                             | Inr ReturnedError \<Rightarrow> Inl TypeError
                             | Inr (Signed resign kid') \<Rightarrow>
                                 if \<not> timingSafeEqual (Str sig) (Str resign)
                                 then fail (errorOnInvalid eng) res ''hwt invalid signature''
                                 else (case codec_decode cd (base64urlToUint8Array dataShown) of
                                         Inr d \<Rightarrow> Inr (res\<lparr>ok := True, data := Some d\<rparr>)
                                       | Inl e \<Rightarrow>
                                           Inr (res\<lparr>data := None, ok := False,
                                                    error := Some ''hwt data decoding failed''\<rparr>))))))"

definition verify ::
  "'v registry \<Rightarrow> platform \<Rightarrow> hwtr \<Rightarrow> int \<Rightarrow> string \<Rightarrow> 'v option \<Rightarrow> exn + 'v result" where
  "verify reg P eng now payload dataHidden =
     (let res = \<lparr>ok = False, data = None, error = None, validTime = None, expired = None,
                 expires = None, withinLeeway = None\<rparr>
      in if take (length prefix) payload \<noteq> prefix
            \<or> of_nat (length payload) > maxTokenSizeBytes eng
         then fail (errorOnInvalid eng) res ''hwt invalid''
         else (let parts = split_on separator payload
               in if length parts < 6 then fail (errorOnInvalid eng) res ''hwt invalid format''
                  else (let sig = parts ! 1; kid = parts ! 2; epoch = parts ! 3;
                            fmt = parts ! 4; dataShown = parts ! 5;
                            time = isExpired eng now epoch;
                            res1 = res\<lparr>validTime := Some (t_validTime time),
                                       expired := Some (t_expired time),
                                       expires := Some (t_expires time)\<rparr>;
                            res2 = (if t_expired time
                                    then res1\<lparr>withinLeeway := t_withinLeeway time\<rparr>
                                    else res1)
                        in if t_expired time \<and> \<not> t_validTime time
                           then fail (errorOnExpired eng) res2 ''hwt expired''
                           else verify_signed reg P eng res2 sig kid epoch fmt dataShown
                                  dataHidden)))"

section \<open>A small platform, registry and keyring for concrete runs\<close>

text \<open>A stand-in for HMAC with thirty-two byte output that depends on the key and on the
  length and content of the data, two registered codecs for text payloads, and a keyring
  of two keys.\<close>

definition sample_hmac :: "string \<Rightarrow> bytes \<Rightarrow> bytes \<Rightarrow> bytes" where
  "sample_hmac h k d =
     replicate 32 (of_nat (length d + sum_list (map unat d) + sum_list (map unat k)))"

definition sample_platform :: platform where
  "sample_platform = \<lparr>hmac = sample_hmac, random = (\<lambda>i. 7)\<rparr>"

definition text_codec :: "string codec" where
  "text_codec =
     \<lparr>encode = (\<lambda>s. Inr (stringToBuffer s)),
      decode = (\<lambda>b. Inr (map (\<lambda>w. char_of (unat w)) b))\<rparr>"

definition marked_codec :: "string codec" where
  "marked_codec =
     \<lparr>encode = (\<lambda>s. Inr (stringToBuffer s)),
      decode = (\<lambda>b. Inr (''jx:'' @ map (\<lambda>w. char_of (unat w)) b))\<rparr>"

definition sample_registry :: "string registry" where
  "sample_registry = [''j'' \<mapsto> text_codec, ''jx'' \<mapsto> marked_codec]"

definition sample_spec :: "string \<Rightarrow> 8 word \<Rightarrow> key_spec" where
  "sample_spec name b =
     \<lparr>spec_id = name, spec_secret = SecretView (replicate 32 b) 0 32, spec_created = True,
      spec_keyImport = None, spec_key = Missing\<rparr>"

definition sample_keyring :: keyring where
  "sample_keyring = \<lparr>kr_current = ''k1'', kr_keys = [sample_spec ''k1'' 1, sample_spec ''k2'' 2]\<rparr>"

definition sample_key :: "string \<Rightarrow> 8 word \<Rightarrow> key" where
  "sample_key name b =
     \<lparr>key_id = name, key_handle = Own (''SHA-256'', replicate 32 b),
      key_props = [''id'', ''created'', ''key'']\<rparr>"

definition sample_keys :: keys_object where
  "sample_keys =
     \<lparr>own_keys = [''k1'' \<mapsto> sample_key ''k1'' 1, ''k2'' \<mapsto> sample_key ''k2'' 2,
                  ''current'' \<mapsto> sample_key ''k1'' 1],
      proto_key = None\<rparr>"

definition sample_engine :: hwtr where
  "sample_engine = configure sample_registry default_options sample_keys"

text \<open>The same keys with the format option \<open>jx\<close>, with a signature size of 33, with
  \<open>errorOnExpired\<close>, and with \<open>errorOnInvalid\<close>.\<close>

definition sample_engine_jx :: hwtr where
  "sample_engine_jx =
     configure sample_registry (default_options\<lparr>opt_format := Some ''jx''\<rparr>) sample_keys"

definition sample_engine_33 :: hwtr where
  "sample_engine_33 =
     configure sample_registry (default_options\<lparr>opt_signatureSize := JsNumber (Finite 33)\<rparr>)
       sample_keys"

definition sample_engine_strict :: hwtr where
  "sample_engine_strict =
     configure sample_registry (default_options\<lparr>opt_errorOnExpired := JsBoolean True\<rparr>)
       sample_keys"

definition sample_engine_invalid :: hwtr where
  "sample_engine_invalid =
     configure sample_registry (default_options\<lparr>opt_errorOnInvalid := JsBoolean True\<rparr>)
       sample_keys"

section \<open>Properties of the constant-time comparison\<close>

lemma word8_xor_zero: "(x XOR y) = 0 \<longleftrightarrow> x = (y :: 8 word)"
  by (metis bit.xor_left_self xor.right_neutral)

lemma ucast_8_32_zero: "(ucast (z :: 8 word) :: 32 word) = 0 \<longleftrightarrow> z = 0"
proof
  assume "(ucast z :: 32 word) = 0"
  then have "unat (ucast z :: 32 word) = 0" by simp
  moreover have "unat z < 2 ^ 32"
    using unsigned_less[of z, where 'a = nat] by simp
  ultimately have "unat z = 0" by (simp add: unsigned_ucast_eq take_bit_nat_eq_self)
  then show "z = 0" by (simp add: unat_eq_zero)
qed simp

lemma ucast_xor: "(ucast (x :: 8 word) XOR (ucast (y :: 8 word) :: 32 word)) = ucast (x XOR y)"
  by (simp add: unsigned_xor_eq)

lemma ucast_xor_zero:
  "(ucast (x :: 8 word) XOR (ucast (y :: 8 word) :: 32 word)) = 0 \<longleftrightarrow> x = y"
  by (simp only: ucast_xor ucast_8_32_zero word8_xor_zero)

lemma xor_accumulate_result:
  "length a = length b \<Longrightarrow>
   snd (xor_accumulate a b (r, n)) = n + length a \<and>
   (fst (xor_accumulate a b (r, n)) = 0 \<longleftrightarrow> r = 0 \<and> a = b)"
proof (induction a arbitrary: b r n)
  case Nil
  then show ?case by simp
next
  case (Cons x xs)
  then obtain y ys where b: "b = y # ys" by (cases b) auto
  have len: "length xs = length ys" using Cons.prems b by simp
  show ?case unfolding b
    using Cons.IH[OF len, of "r OR (ucast x XOR ucast y)" "Suc n"] ucast_xor_zero[of x y]
    by (simp add: or_eq_0_iff)
qed

lemma timingSafeEqual_iff:
  "timingSafeEqual expected actual \<longleftrightarrow> operand_bytes expected = operand_bytes actual"
proof (cases "length (operand_bytes expected) = length (operand_bytes actual)")
  case True
  from xor_accumulate_result[OF True, of 0 0] show ?thesis
    using True by (simp add: timingSafeEqual_def timingSafeEqual_trace_def Let_def case_prod_beta)
next
  case False
  then show ?thesis by (auto simp: timingSafeEqual_def timingSafeEqual_trace_def Let_def)
qed

text \<open>
  C3 (as the code has it).  \<open>timingSafeEqual\<close> turns string operands into bytes and returns
  true exactly when the two byte sequences are equal.  When the two sequences have one
  length, the loop visits every byte pair, whatever the earlier pairs were; when the lengths
  differ, it returns false at once and visits no pair.
\<close>

theorem timingSafeEqual_scan:
  "timingSafeEqual_trace expected actual =
     (operand_bytes expected = operand_bytes actual,
      if length (operand_bytes expected) = length (operand_bytes actual)
      then length (operand_bytes expected) else 0)"
proof (cases "length (operand_bytes expected) = length (operand_bytes actual)")
  case True
  from xor_accumulate_result[OF True, of 0 0] show ?thesis
    using True by (simp add: timingSafeEqual_trace_def Let_def case_prod_beta)
next
  case False
  then show ?thesis by (auto simp: timingSafeEqual_trace_def Let_def)
qed

lemma atob_AQID: "atob ''AQID'' = Some [1, 2, 3]"
  by (simp add: atob_def strip_padding_def ascii_whitespace_def b64_index_def
        b64_alphabet_def Let_def)

lemma operand_bytes_AQID: "operand_bytes (Str ''AQID'') = [1, 2, 3]"
proof -
  have "base64urlToUint8Array ''AQID'' =
          (case atob ''AQID'' of Some bs \<Rightarrow> bs | None \<Rightarrow> emptyArray)"
    by (simp add: base64urlToUint8Array_def)
  then show ?thesis by (simp add: atob_AQID)
qed

theorem timingSafeEqual_scan_witness:
  "timingSafeEqual_trace (Str ''AQID'') (Buf [1, 2, 3]) = (True, 3)"
  using timingSafeEqual_scan[of "Str ''AQID''" "Buf [1, 2, 3]"] operand_bytes_AQID by simp

text \<open>
  C3 as stated fails: for operands of lengths one and two the comparison returns false
  without visiting a single byte pair, although the longer operand has two bytes.
\<close>

theorem timingSafeEqual_unequal_length_counterexample:
  "timingSafeEqual_trace (Buf [1]) (Buf [1, 2]) = (False, 0)
   \<and> max (length [1 :: 8 word]) (length [1, 2 :: 8 word]) = 2"
  by (simp add: timingSafeEqual_trace_def)

section \<open>Rounding of whole numbers\<close>

lemma bitlen_pos: "n \<noteq> 0 \<Longrightarrow> bitlen n = Suc (bitlen (n div 2))"
  by (subst bitlen.simps) simp

lemma bitlen_bounds: "n \<noteq> 0 \<Longrightarrow> 2 ^ (bitlen n - 1) \<le> n \<and> n < 2 ^ bitlen n"
proof (induction n rule: bitlen.induct)
  case (1 n)
  show ?case
  proof (cases "n div 2 = 0")
    case True
    with 1(2) have n: "n = 1" by (cases n) auto
    have "bitlen (0 :: nat) = 0" by (subst bitlen.simps) simp
    then show ?thesis unfolding n by (simp add: bitlen_pos)
  next
    case False
    from 1(1)[OF 1(2) False] have ih:
      "2 ^ (bitlen (n div 2) - 1) \<le> n div 2" "n div 2 < 2 ^ bitlen (n div 2)" by simp_all
    have b: "bitlen (n div 2) = Suc (bitlen (n div 2) - 1)"
      using bitlen_pos[OF False] by simp
    have "(2 :: nat) ^ bitlen (n div 2) = 2 * 2 ^ (bitlen (n div 2) - 1)"
      by (subst b) simp
    also have "\<dots> \<le> 2 * (n div 2)" using ih(1) by simp
    also have "\<dots> \<le> n" by simp
    finally have lower: "2 ^ bitlen (n div 2) \<le> n" .
    have "n < 2 * (n div 2 + 1)" by presburger
    also have "\<dots> \<le> 2 * 2 ^ bitlen (n div 2)" using ih(2) by simp
    finally have upper: "n < 2 ^ Suc (bitlen (n div 2))" by simp
    show ?thesis using lower upper by (simp add: bitlen_pos[OF 1(2)])
  qed
qed

lemma round_half_even_of_int: "round_half_even (of_int m) = m"
  by (simp add: round_half_even_def)

lemma fround_of_nat:
  assumes "n \<le> 2 ^ 53"
  shows "fround (of_nat n) = Finite (of_nat n)"
proof (cases "n = 0")
  case True
  then show ?thesis by (simp add: fround_def)
next
  case False
  define b where "b = bitlen n"
  from bitlen_bounds[OF False] have lo: "2 ^ (b - 1) \<le> n" and hi: "n < 2 ^ b"
    by (simp_all add: b_def)
  have bpos: "b \<noteq> 0" using bitlen_pos[OF False] by (simp add: b_def)
  have "(2 :: nat) ^ (b - 1) \<le> 2 ^ 53" using lo assms by linarith
  then have b54: "b - 1 \<le> 53" by (rule power_le_imp_le_exp[rotated]) simp
  have one: "(1 :: rat) \<le> of_nat n" using False by simp
  have e: "binary_exponent (of_nat n) = int b - 1"
    using one by (simp add: binary_exponent_def b_def)
  have emax: "max (int b - 1) (- 1022) = int b - 1" by simp
  have r: "of_int (round_half_even (of_nat n / pow2 (int b - 53))) * pow2 (int b - 53)
           = (of_nat n :: rat)"
  proof (cases "b - 1 \<le> 52")
    case True
    define d where "d = 52 - (b - 1)"
    have p: "pow2 (int b - 53) = 1 / 2 ^ d"
    proof (cases "b - 1 = 52")
      case True
      then show ?thesis using bpos by (simp add: pow2_def d_def)
    next
      case False
      with True have "int b - 53 < 0" by linarith
      moreover have "nat (- (int b - 53)) = d" using True bpos by (simp add: d_def)
      ultimately show ?thesis by (simp add: pow2_def)
    qed
    have q: "of_nat n / (1 / 2 ^ d) = (of_int (int n * 2 ^ d) :: rat)"
      by simp
    have "of_int (round_half_even (of_nat n / pow2 (int b - 53))) * pow2 (int b - 53)
          = (of_int (int n * 2 ^ d) :: rat) * (1 / 2 ^ d)"
      by (simp only: q round_half_even_of_int p)
    also have "\<dots> = of_nat n" by simp
    finally show ?thesis .
  next
    case False
    with b54 have b1: "b - 1 = 53" by simp
    then have n: "n = 2 ^ 53" using lo assms by simp
    have "b = 54" using b1 by simp
    then have p: "pow2 (int b - 53) = 2" by (simp add: pow2_def)
    have q: "(of_nat n :: rat) / 2 = of_int (2 ^ 52)" unfolding n by simp
    have "of_int (round_half_even (of_nat n / pow2 (int b - 53))) * pow2 (int b - 53)
          = (of_int (2 ^ 52) :: rat) * 2"
      by (simp only: p q round_half_even_of_int)
    also have "\<dots> = of_nat n" unfolding n by simp
    finally show ?thesis .
  qed
  have "(of_nat n :: rat) \<le> 2 ^ 53" using assms
    by (metis of_nat_le_iff of_nat_numeral of_nat_power)
  also have "\<dots> < 2 ^ 1024" by (rule power_strict_increasing) simp_all
  finally have small: "\<not> pow2 1024 \<le> (of_nat n :: rat)" by (simp add: pow2_def)
  show ?thesis using False one
    by (simp add: fround_def Let_def e emax r small del: max.absorb1 max.absorb2 max.absorb3 max.absorb4)
qed

lemma fround_of_int:
  assumes "\<bar>k\<bar> \<le> 2 ^ 53"
  shows "fround (of_int k) = Finite (of_int k)"
proof -
  have n: "nat \<bar>k\<bar> \<le> 2 ^ 53" using assms by (simp add: nat_le_iff)
  have a: "\<bar>of_int k :: rat\<bar> = of_nat (nat \<bar>k\<bar>)" by simp
  from fround_of_nat[OF n] have f: "fround (of_nat (nat \<bar>k\<bar>)) = Finite (of_nat (nat \<bar>k\<bar>))" .
  show ?thesis
  proof (cases "k < 0")
    case False
    then have "(of_int k :: rat) = of_nat (nat \<bar>k\<bar>)" by simp
    then show ?thesis using f by simp
  next
    case True
    then have k: "(of_int k :: rat) = - of_nat (nat \<bar>k\<bar>)" by simp
    have neg: "fround (- x) = number_neg (fround x)" for x
      by (simp add: fround_def Let_def)
    show ?thesis unfolding k neg f by simp
  qed
qed

lemma fround_numeral:
  "numeral w \<le> (9007199254740992 :: nat) \<Longrightarrow> fround (numeral w) = Finite (numeral w)"
  using fround_of_nat[of "numeral w"] by simp

lemma fround_zero: "fround 0 = Finite 0"
  by (simp add: fround_def)

lemma fround_one: "fround 1 = Finite 1"
  using fround_of_nat[of 1] by simp

section \<open>Evaluating the text of numbers\<close>

lemma shortest_numeral:
  "shortest (numeral w) k a n =
     (let unit = pow10 (n - int k);
          lo = nat \<lfloor>a / unit\<rfloor>;
          hi = Suc lo;
          lo_ok = (fround (of_nat lo * unit) = Finite a);
          hi_ok = (fround (of_nat hi * unit) = Finite a);
          lo_near = (a - of_nat lo * unit < of_nat hi * unit - a
                     \<or> a - of_nat lo * unit = of_nat hi * unit - a \<and> even lo)
      in if lo_ok \<and> (\<not> hi_ok \<or> lo_near) then (n, lo)
         else if hi_ok then (if hi = 10 ^ k then (n + 1, 1) else (n, hi))
         else shortest (pred_numeral w) (Suc k) a n)"
  by (simp only: numeral_eq_Suc shortest.simps)

lemmas char_of_eval = char_of_def bit_Suc_0_iff

lemma floor_rat_numeral: "\<lfloor>numeral a / numeral b :: rat\<rfloor> = numeral a div numeral b"
  using floor_divide_of_int_eq[of "numeral a" "numeral b", where 'a = rat] by simp

lemma ceiling_rat_numeral:
  "\<lceil>numeral a / numeral b :: rat\<rceil> = - (- numeral a div numeral b)"
  using floor_divide_of_int_eq[of "- numeral a" "numeral b", where 'a = rat]
  by (simp add: ceiling_def)

lemma decimal_exponent_160: "decimal_exponent 160 = 3"
  by (simp add: decimal_exponent_def digits.simps)

lemma shortest_160: "shortest 17 (Suc 0) 160 3 = (3, 16)"
  by (simp add: shortest_numeral pow10_def fround_numeral floor_rat_numeral Let_def)

lemma number_text_160: "number_text 3 16 = ''160''"
  by (simp add: number_text_def digits.simps digit_char_def char_of_eval Let_def)

lemma String_of_number_160: "String_of_number (Finite 160) = ''160''"
  by (simp add: String_of_number_def fround_numeral decimal_exponent_160 shortest_160
        number_text_160)

lemma Number_of_string_160: "Number_of_string ''160'' = Finite 160"
  by (simp add: Number_of_string_def trim_def js_whitespace_def decimal_literal_def
        is_digit_def exponent_part_def pow10_def digits_val_def digit_val_def fround_numeral Let_def)

section \<open>The sample engine\<close>

lemma sample_importKeys:
  "fst (importKeys sample_platform ''SHA-256'' sample_keyring) = Inr sample_keys"
  by (simp add: importKeys_def import_all_def sample_keyring_def sample_spec_def
        import_step_def importKey_def stringToBuffer_secret_def cleared_def keys_set_def
        keys_empty_def sample_keys_def sample_key_def Let_def)

text \<open>The import leaves the caller's secrets overwritten with zeros.\<close>

lemma sample_importKeys_secrets:
  "map spec_secret (snd (importKeys sample_platform ''SHA-256'' sample_keyring))
   = [SecretView (replicate 32 0) 0 32, SecretView (replicate 32 0) 0 32]"
  by (simp add: importKeys_def import_all_def sample_keyring_def sample_spec_def
        import_step_def importKey_def stringToBuffer_secret_def cleared_def clearBuffer_def
        keys_set_def keys_empty_def Let_def)

lemma sample_engine_fields:
  "errorOnInvalid sample_engine = False" "errorOnExpired sample_engine = False"
  "errorOnEncoding sample_engine = True" "errorOnGenerate sample_engine = True"
  "expiresInSeconds sample_engine = 60" "leewaySeconds sample_engine = 1"
  "maxTokenSizeBytes sample_engine = 2048" "signatureSize sample_engine = 0"
  "algorithm sample_engine = ''SHA-256''" "format sample_engine = ''j''"
  "keys sample_engine = sample_keys"
  by (simp_all add: sample_engine_def configure_def default_options_def numeric_def
       supports_def truthy_def fround_numeral fround_zero fround_one Let_def)

lemma sample_engine_strict_fields:
  "errorOnInvalid sample_engine_strict = False" "errorOnExpired sample_engine_strict = True"
  "errorOnEncoding sample_engine_strict = True" "errorOnGenerate sample_engine_strict = True"
  "expiresInSeconds sample_engine_strict = 60" "leewaySeconds sample_engine_strict = 1"
  "maxTokenSizeBytes sample_engine_strict = 2048" "signatureSize sample_engine_strict = 0"
  "algorithm sample_engine_strict = ''SHA-256''" "format sample_engine_strict = ''j''"
  "keys sample_engine_strict = sample_keys"
  by (simp_all add: sample_engine_strict_def configure_def default_options_def numeric_def
       supports_def truthy_def fround_numeral fround_zero fround_one Let_def)

section \<open>Splitting and joining\<close>

lemma split_on_nonempty: "split_on c s \<noteq> []"
  by (induction s) (auto simp: Let_def)

lemma split_on_nosep: "c \<notin> set p \<Longrightarrow> split_on c p = [p]"
  by (induction p) (auto simp: Let_def)

lemma split_on_append: "c \<notin> set p \<Longrightarrow> split_on c (p @ c # rest) = p # split_on c rest"
  by (induction p) (auto simp: Let_def)

lemma split_on_join:
  "fs \<noteq> [] \<Longrightarrow> \<forall>f \<in> set fs. c \<notin> set f \<Longrightarrow> split_on c (join_with c fs) = fs"
proof (induction c fs rule: join_with.induct)
  case (1 c)
  then show ?case by simp
next
  case (2 c p)
  then show ?case by (simp add: split_on_nosep)
next
  case (3 c p v va)
  then show ?case by (simp add: split_on_append)
qed

section \<open>The steps of verification\<close>

lemma verify_signed_accepts:
  assumes "verify_signed reg P eng res sig kid e fmt shown h = Inr r" and "ok r" and "\<not> ok res"
  shows "\<exists>d. \<forall>res'. verify_signed reg P eng res' sig kid e fmt shown h
                     = Inr (res'\<lparr>ok := True, data := Some d\<rparr>)"
  using assms
  by (auto simp: verify_signed_def fail_def Let_def
           split: if_splits sum.splits option.splits generated.splits)

section \<open>Concrete runs of the sample engine\<close>

lemma sample_registry_j: "codecs_get sample_registry ''j'' = Own text_codec"
  by (simp add: codecs_get_def object_get_def sample_registry_def)

lemma sample_registry_jx: "codecs_get sample_registry ''jx'' = Own marked_codec"
  by (simp add: codecs_get_def object_get_def sample_registry_def)

lemma sample_keys_get:
  "keys_get sample_keys ''current'' = Own (sample_key ''k1'' 1)"
  "keys_get sample_keys ''k1'' = Own (sample_key ''k1'' 1)"
  "keys_get sample_keys ''k2'' = Own (sample_key ''k2'' 2)"
  by (simp_all add: keys_get_def sample_keys_def Let_def)

lemma base64url_hi: "bufferToBase64Url (stringToBuffer ''hi'') = ''aGk''"
  by (simp add: bufferToBase64Url_def stringToBuffer_def b64_char_def b64_alphabet_def Let_def)

lemma atob_aGk: "atob ''aGk='' = Some [104, 105]"
  by (simp add: atob_def strip_padding_def ascii_whitespace_def b64_index_def
        b64_alphabet_def Let_def)

lemma base64url_decode_aGk: "base64urlToUint8Array ''aGk'' = [104, 105]"
proof -
  have "base64urlToUint8Array ''aGk'' =
          (case atob ''aGk='' of Some bs \<Rightarrow> bs | None \<Rightarrow> emptyArray)"
    by (simp add: base64urlToUint8Array_def)
  then show ?thesis by (simp add: atob_aGk)
qed

text \<open>Signing with a sample key: the whole signature, or its first 33 characters.\<close>

lemma sample_generate:
  assumes "signatureSize eng = 0"
  shows "generate sample_platform eng text (Own (sample_key name b))
         = Inr (Signed (bufferToBase64Url
                          (sample_hmac ''SHA-256'' (replicate 32 b) (stringToBuffer text))) name)"
  using assms by (simp add: generate_def sample_key_def sample_platform_def Let_def)

lemma sample_generate_33:
  assumes "signatureSize eng = 33"
  shows "generate sample_platform eng text (Own (sample_key name b))
         = Inr (Signed (take 33 (bufferToBase64Url
                          (sample_hmac ''SHA-256'' (replicate 32 b) (stringToBuffer text)))) name)"
  using assms by (simp add: generate_def sample_key_def sample_platform_def slice0_def Let_def)

lemma replicate_32:
  "replicate 32 x =
     [x, x, x, x, x, x, x, x] @ [x, x, x, x, x, x, x, x] @ [x, x, x, x, x, x, x, x]
     @ [x, x, x, x, x, x, x, x]"
  by (simp add: numeral_eq_Suc)

lemma sample_mac_160:
  "sample_hmac ''SHA-256'' (replicate 32 1) (stringToBuffer ''160.j.aGk'') = replicate 32 153"
  by (simp add: sample_hmac_def stringToBuffer_def sum_list_replicate)

lemma btoa_mac_160:
  "btoa (replicate 32 153) = ''mZmZmZmZmZmZmZmZmZmZmZmZmZmZmZmZmZmZmZmZmZk=''"
  by (simp add: replicate_32 b64_char_def b64_alphabet_def Let_def)

lemma sample_signature_160:
  "bufferToBase64Url (sample_hmac ''SHA-256'' (replicate 32 1) (stringToBuffer ''160.j.aGk''))
   = ''mZmZmZmZmZmZmZmZmZmZmZmZmZmZmZmZmZmZmZmZmZk''"
  by (simp add: sample_mac_160 bufferToBase64Url_def btoa_mac_160 del: btoa.simps)

lemma sample_assemble:
  assumes "keys eng = sample_keys" and "format eng = ''j''" and "signatureSize eng = 0"
  shows "assemble sample_registry sample_platform eng (Finite 160) ''hi'' None
         = Inr ''hwt.mZmZmZmZmZmZmZmZmZmZmZmZmZmZmZmZmZmZmZmZmZk.k1.160.j.aGk''"
  by (simp add: assemble_def assms sample_registry_j codec_encode_def signing_input_def
        text_codec_def base64url_hi String_of_number_160 separator_def prefix_def
        sample_keys_get sample_generate sample_signature_160 Let_def)

lemma sample_create:
  "create sample_registry sample_platform sample_engine 100 ''hi'' None
   = Inr ''hwt.mZmZmZmZmZmZmZmZmZmZmZmZmZmZmZmZmZmZmZmZmZk.k1.160.j.aGk''"
  by (simp add: create_def internal_createWith_def number_add_def fround_numeral
        sample_engine_fields sample_assemble)

lemma timingSafeEqual_same: "timingSafeEqual (Str s) (Str s)"
  by (simp add: timingSafeEqual_iff)

lemma sample_split:
  "split_on separator ''hwt.mZmZmZmZmZmZmZmZmZmZmZmZmZmZmZmZmZmZmZmZmZk.k1.160.j.aGk''
   = [''hwt'', ''mZmZmZmZmZmZmZmZmZmZmZmZmZmZmZmZmZmZmZmZmZk'', ''k1'', ''160'', ''j'', ''aGk'']"
  by (simp add: separator_def Let_def)

lemma isExpired_100:
  "isExpired eng 100 ''160'' =
     \<lparr>t_expires = Finite 160, t_expired = False, t_validTime = True, t_withinLeeway = None\<rparr>"
  by (simp add: isExpired_def Number_of_string_160 truthy_def Let_def)

lemma sample_verify_signed:
  assumes "keys eng = sample_keys" and "signatureSize eng = 0"
  shows "verify_signed sample_registry sample_platform eng res
           ''mZmZmZmZmZmZmZmZmZmZmZmZmZmZmZmZmZmZmZmZmZk'' ''k1'' ''160'' ''j'' ''aGk'' None
         = Inr (res\<lparr>ok := True, data := Some ''hi''\<rparr>)"
  by (simp add: verify_signed_def assms sample_registry_j sample_keys_get signing_input_def
        separator_def sample_generate sample_signature_160 timingSafeEqual_same codec_decode_def
        base64url_decode_aGk text_codec_def char_of_eval Let_def)

lemma sample_verify_100:
  "verify sample_registry sample_platform sample_engine 100
     ''hwt.mZmZmZmZmZmZmZmZmZmZmZmZmZmZmZmZmZmZmZmZmZk.k1.160.j.aGk'' None
   = Inr \<lparr>ok = True, data = Some ''hi'', error = None, validTime = Some True,
          expired = Some False, expires = Some (Finite 160), withinLeeway = None\<rparr>"
  by (simp add: verify_def prefix_def sample_engine_fields sample_split isExpired_100
        sample_verify_signed Let_def del: split_on.simps)

section \<open>Options, key import and readiness on particular inputs\<close>

text \<open>The signature size \<open>'0'\<close> is a non-empty string, hence taken, and is raised to the
  minimum; \<open>errorOnGenerate\<close> is switched off by \<open>false\<close> only.\<close>

lemma configure_signatureSize_text:
  "signatureSize (configure reg (default_options\<lparr>opt_signatureSize := JsString ''0''\<rparr>) ko) = 22"
  by (simp add: configure_def default_options_def numeric_def supports_def
        Number_of_string_def trim_def js_whitespace_def decimal_literal_def is_digit_def
        exponent_part_def pow10_def digits_val_def digit_val_def fround_zero Let_def)

lemma configure_errorOnGenerate:
  "errorOnGenerate (configure reg (default_options\<lparr>opt_errorOnGenerate := JsNumber (Finite 0)\<rparr>) ko)"
  "\<not> errorOnGenerate (configure reg (default_options\<lparr>opt_errorOnGenerate := JsBoolean False\<rparr>) ko)"
  by (simp_all add: configure_def default_options_def Let_def split: prod.splits)

text \<open>A view of eight bytes into a buffer of forty: the key is made of the whole buffer,
  and the whole buffer is overwritten.\<close>

lemma importKey_view:
  "importKey ''SHA-256''
     \<lparr>spec_id = ''k'', spec_secret = SecretView (replicate 40 5) 4 8, spec_created = False,
      spec_keyImport = None, spec_key = Missing\<rparr> 0
   = (Inr \<lparr>key_id = ''k'', key_handle = Own (''SHA-256'', replicate 40 5),
             key_props = [''id'', ''created'', ''key'']\<rparr>,
      SecretView (replicate 40 0) 4 8)"
  by (simp add: importKey_def stringToBuffer_secret_def cleared_def clearBuffer_def Let_def)

lemma importKey_invalid_id:
  "fst (importKey hash
          \<lparr>spec_id = ''a.b'', spec_secret = s, spec_created = c, spec_keyImport = ki,
           spec_key = k\<rparr> 3)
   = Inl (''Hwtr key id invalid: '' @ [CHR 0x22] @ ''a.b'' @ [CHR 0x22] @ '' at index 3 has a ''
          @ [CHR 0x27, CHR ''.'', CHR 0x27])"
  by (simp add: importKey_def key_id_invalid_def digits.simps digit_char_def char_of_eval
        Let_def)

text \<open>Without keys the engine that \<open>factory\<close> hands over has no key yet, and \<open>create\<close>
  raises.\<close>

lemma factory_without_keys:
  "keys (factory reg \<lparr>kr_current = c, kr_keys = []\<rparr> opts) = keys_empty"
  by (simp add: factory_def ready_def import_all_def Let_def)

lemma create_without_keys:
  "create sample_registry P
     (factory sample_registry \<lparr>kr_current = c, kr_keys = []\<rparr> default_options) now v None
   = Inl (Error ''hwt failed to generate HMAC signature'')"
proof -
  let ?eng = "factory sample_registry \<lparr>kr_current = c, kr_keys = []\<rparr> default_options"
  have f: "format ?eng = ''j''" "errorOnGenerate ?eng" "keys ?eng = keys_empty"
    by (simp_all add: factory_def ready_def import_all_def configure_def default_options_def
          Let_def split: prod.splits)
  have k: "keys_get keys_empty ''current'' = Missing"
    by (simp add: keys_get_def keys_empty_def Object_prototype_names_def)
  show ?thesis
    by (simp add: create_def internal_createWith_def assemble_def f k sample_registry_j
          codec_encode_def text_codec_def signing_input_def generate_def Let_def)
qed

section \<open>The lifetime of a token\<close>

lemma decimal_exponent_101: "decimal_exponent 101 = 3"
  by (simp add: decimal_exponent_def digits.simps)

lemma shortest_101: "shortest 17 (Suc 0) 101 3 = (3, 101)"
  by (simp add: shortest_numeral pow10_def fround_numeral floor_rat_numeral Let_def)

lemma number_text_101: "number_text 3 101 = ''101''"
  by (simp add: number_text_def digits.simps digit_char_def char_of_eval Let_def)

lemma String_of_number_101: "String_of_number (Finite 101) = ''101''"
  by (simp add: String_of_number_def fround_numeral decimal_exponent_101 shortest_101
        number_text_101)

lemma decimal_exponent_31557700: "decimal_exponent 31557700 = 8"
  by (simp add: decimal_exponent_def digits.simps)

lemma shortest_31557700: "shortest 17 (Suc 0) 31557700 8 = (8, 315577)"
  by (simp add: shortest_numeral pow10_def fround_numeral floor_rat_numeral Let_def)

lemma replicate_2: "replicate 2 x = [x, x]"
  by (simp add: numeral_2_eq_2)

lemma number_text_31557700: "number_text 8 315577 = ''31557700''"
  by (simp add: number_text_def digits.simps digit_char_def char_of_eval replicate_2 Let_def)

lemma String_of_number_31557700: "String_of_number (Finite 31557700) = ''31557700''"
  by (simp add: String_of_number_def fround_numeral decimal_exponent_31557700
        shortest_31557700 number_text_31557700)

lemma sample_mac_101:
  "sample_hmac ''SHA-256'' (replicate 32 1) (stringToBuffer ''101.j.aGk'') = replicate 32 148"
  by (simp add: sample_hmac_def stringToBuffer_def sum_list_replicate)

lemma btoa_mac_101:
  "btoa (replicate 32 148) = ''lJSUlJSUlJSUlJSUlJSUlJSUlJSUlJSUlJSUlJSUlJQ=''"
  by (simp add: replicate_32 b64_char_def b64_alphabet_def Let_def)

lemma sample_signature_101:
  "bufferToBase64Url (sample_hmac ''SHA-256'' (replicate 32 1) (stringToBuffer ''101.j.aGk''))
   = ''lJSUlJSUlJSUlJSUlJSUlJSUlJSUlJSUlJSUlJSUlJQ''"
  by (simp add: sample_mac_101 bufferToBase64Url_def btoa_mac_101 del: btoa.simps)

lemma sample_mac_31557700:
  "sample_hmac ''SHA-256'' (replicate 32 1) (stringToBuffer ''31557700.j.aGk'')
   = replicate 32 163"
  by (simp add: sample_hmac_def stringToBuffer_def sum_list_replicate)

lemma btoa_mac_31557700:
  "btoa (replicate 32 163) = ''o6Ojo6Ojo6Ojo6Ojo6Ojo6Ojo6Ojo6Ojo6Ojo6Ojo6M=''"
  by (simp add: replicate_32 b64_char_def b64_alphabet_def Let_def)

lemma sample_signature_31557700:
  "bufferToBase64Url
     (sample_hmac ''SHA-256'' (replicate 32 1) (stringToBuffer ''31557700.j.aGk''))
   = ''o6Ojo6Ojo6Ojo6Ojo6Ojo6Ojo6Ojo6Ojo6Ojo6Ojo6M''"
  by (simp add: sample_mac_31557700 bufferToBase64Url_def btoa_mac_31557700 del: btoa.simps)

lemma sample_token_101:
  "internal_createWith sample_registry sample_platform sample_engine (Finite 101) ''hi'' None
   = Inr ''hwt.lJSUlJSUlJSUlJSUlJSUlJSUlJSUlJSUlJSUlJSUlJQ.k1.101.j.aGk''"
  by (simp add: internal_createWith_def assemble_def sample_engine_fields sample_registry_j
        codec_encode_def signing_input_def text_codec_def base64url_hi String_of_number_101
        separator_def prefix_def sample_keys_get sample_generate sample_signature_101 Let_def)

lemma sample_token_160:
  "internal_createWith sample_registry sample_platform sample_engine (Finite 160) ''hi'' None
   = Inr ''hwt.mZmZmZmZmZmZmZmZmZmZmZmZmZmZmZmZmZmZmZmZmZk.k1.160.j.aGk''"
  by (simp add: internal_createWith_def sample_engine_fields sample_assemble)

lemma sample_token_31557700:
  "internal_createWith sample_registry sample_platform sample_engine (Finite 31557700)
     ''hi'' None
   = Inr ''hwt.o6Ojo6Ojo6Ojo6Ojo6Ojo6Ojo6Ojo6Ojo6Ojo6Ojo6M.k1.31557700.j.aGk''"
  by (simp add: internal_createWith_def assemble_def sample_engine_fields sample_registry_j
        codec_encode_def signing_input_def text_codec_def base64url_hi
        String_of_number_31557700 separator_def prefix_def sample_keys_get sample_generate
        sample_signature_31557700 Let_def)

lemma internal_createWith_shape:
  assumes "internal_createWith reg P eng epoch v h = Inr token"
  shows "\<exists>full sig kid item.
           (token = full \<or> token = slice0 full (maxTokenSizeBytes eng))
           \<and> full = join_with separator
                      [prefix, sig, kid, String_of_number epoch, format eng, item]"
  using assms
  by (auto simp: internal_createWith_def assemble_def Let_def
           split: sum.splits generated.splits if_splits)

text \<open>
  C8 (as the code has it).  \<open>createWith\<close> is \<open>_createWith\<close> at the expiry
  \<open>now + lifetime\<close>, where the lifetime is: for an omitted (undefined) argument the engine's
  configured default, clamped to the range from 1 to 31557600 seconds; otherwise
  \<open>Number(ttl)\<close> clamped to that range, and one second when \<open>Number(ttl)\<close> is not a
  number.  The string returned is the token \<open>hwt.sig.kid.exp.format.item\<close> whose expiry
  field is the text of that expiry, or that token cut at the size limit.
\<close>

theorem createWith_lifetime:
  "createWith reg P eng now ttl v h =
     internal_createWith reg P eng
       (number_add (of_int now)
          (case ttl of
             JsUndefined \<Rightarrow>
               (if expiresInSeconds eng < 1 then 1
                else if expiresInSeconds eng > 31557600 then 31557600
                else expiresInSeconds eng)
           | _ \<Rightarrow>
               (case ToNumber ttl of
                  NaN \<Rightarrow> 1
                | NegInfinity \<Rightarrow> 1
                | PosInfinity \<Rightarrow> 31557600
                | Finite n \<Rightarrow> (if n < 1 then 1 else if n > 31557600 then 31557600 else n))))
       v h
   \<and> (\<forall>token. createWith reg P eng now ttl v h = Inr token \<longrightarrow>
         (\<exists>full sig kid item.
            (token = full \<or> token = slice0 full (maxTokenSizeBytes eng))
            \<and> full = join_with separator
                 [prefix, sig, kid, String_of_number (expiresAt eng now ttl), format eng, item]))"
proof -
  have a: "createWith reg P eng now ttl v h =
     internal_createWith reg P eng
       (number_add (of_int now)
          (case ttl of
             JsUndefined \<Rightarrow>
               (if expiresInSeconds eng < 1 then 1
                else if expiresInSeconds eng > 31557600 then 31557600
                else expiresInSeconds eng)
           | _ \<Rightarrow>
               (case ToNumber ttl of
                  NaN \<Rightarrow> 1
                | NegInfinity \<Rightarrow> 1
                | PosInfinity \<Rightarrow> 31557600
                | Finite n \<Rightarrow> (if n < 1 then 1 else if n > 31557600 then 31557600 else n))))
       v h"
    by (cases ttl)
       (simp_all add: createWith_def expiresAt_def lifetime_def numeric_def
          split: number.splits)
  have b: "\<exists>full sig kid item.
            (token = full \<or> token = slice0 full (maxTokenSizeBytes eng))
            \<and> full = join_with separator
                 [prefix, sig, kid, String_of_number (expiresAt eng now ttl), format eng, item]"
    if "createWith reg P eng now ttl v h = Inr token" for token
    using that internal_createWith_shape[of reg P eng "expiresAt eng now ttl" v h token]
    by (simp add: createWith_def)
  from a b show ?thesis by blast
qed

theorem createWith_lifetime_witness:
  "createWith sample_registry sample_platform sample_engine 100 (JsNumber (Finite 0))
     ''hi'' None
   = Inr ''hwt.lJSUlJSUlJSUlJSUlJSUlJSUlJSUlJSUlJSUlJSUlJQ.k1.101.j.aGk''
   \<and> createWith sample_registry sample_platform sample_engine 100 (JsNumber (Finite 99999999))
       ''hi'' None
     = Inr ''hwt.o6Ojo6Ojo6Ojo6Ojo6Ojo6Ojo6Ojo6Ojo6Ojo6Ojo6M.k1.31557700.j.aGk''
   \<and> createWith sample_registry sample_platform sample_engine 100 (JsNumber (Finite 60))
       ''hi'' None
     = Inr ''hwt.mZmZmZmZmZmZmZmZmZmZmZmZmZmZmZmZmZmZmZmZmZk.k1.160.j.aGk''
   \<and> createWith sample_registry sample_platform sample_engine 100 JsUndefined ''hi'' None
     = Inr ''hwt.mZmZmZmZmZmZmZmZmZmZmZmZmZmZmZmZmZmZmZmZmZk.k1.160.j.aGk''"
  using createWith_lifetime[of sample_registry sample_platform sample_engine 100
          "JsNumber (Finite 0)" "''hi''" None]
    createWith_lifetime[of sample_registry sample_platform sample_engine 100
          "JsNumber (Finite 99999999)" "''hi''" None]
    createWith_lifetime[of sample_registry sample_platform sample_engine 100
          "JsNumber (Finite 60)" "''hi''" None]
    createWith_lifetime[of sample_registry sample_platform sample_engine 100
          JsUndefined "''hi''" None]
  by (simp add: sample_engine_fields number_add_def fround_numeral fround_zero
        sample_token_101 sample_token_160 sample_token_31557700)

text \<open>
  C8 as stated fails: with the default lifetime of 60 seconds configured, \<open>createWith\<close> with
  the lifetime \<open>'abc'\<close>, which is not a number, returns a token that expires one second
  from now (at 101), not sixty seconds from now (at 160) as the token of \<open>create\<close> does.
\<close>

theorem createWith_invalid_lifetime_counterexample:
  "createWith sample_registry sample_platform sample_engine 100 (JsString ''abc'') ''hi'' None
   = Inr ''hwt.lJSUlJSUlJSUlJSUlJSUlJSUlJSUlJSUlJSUlJSUlJQ.k1.101.j.aGk''
   \<and> create sample_registry sample_platform sample_engine 100 ''hi'' None
     = Inr ''hwt.mZmZmZmZmZmZmZmZmZmZmZmZmZmZmZmZmZmZmZmZmZk.k1.160.j.aGk''
   \<and> expiresInSeconds sample_engine = 60"
proof -
  have n: "Number_of_string ''abc'' = NaN"
    by (simp add: Number_of_string_def trim_def js_whitespace_def decimal_literal_def
          is_digit_def Let_def)
  have "createWith sample_registry sample_platform sample_engine 100 (JsString ''abc'')
          ''hi'' None
        = internal_createWith sample_registry sample_platform sample_engine (Finite 101)
            ''hi'' None"
    by (simp add: createWith_def expiresAt_def lifetime_def numeric_def n number_add_def
          fround_numeral)
  then show ?thesis by (simp add: sample_token_101 sample_create sample_engine_fields)
qed

section \<open>The size bound\<close>

lemma configure_max_bounds:
  "512 \<le> maxTokenSizeBytes (configure reg opts ko)
   \<and> maxTokenSizeBytes (configure reg opts ko) \<le> 5120"
  by (simp add: configure_def numeric_def Let_def split: number.splits prod.splits option.splits)

lemma slice0_nonneg: "0 \<le> mx \<Longrightarrow> slice0 s mx = take (nat \<lfloor>mx\<rfloor>) s"
  by (simp add: slice0_def Let_def)

lemma take_floor_length:
  assumes "0 \<le> mx" and "of_nat (length token) > (mx :: rat)"
  shows "length (take (nat \<lfloor>mx\<rfloor>) token) = nat \<lfloor>mx\<rfloor>"
    and "of_nat (length (take (nat \<lfloor>mx\<rfloor>) token)) \<le> mx"
proof -
  have "of_int \<lfloor>mx\<rfloor> \<le> mx" by simp
  also have "\<dots> < of_nat (length token)" using assms(2) .
  finally have "\<lfloor>mx\<rfloor> < int (length token)" by simp
  then have le: "nat \<lfloor>mx\<rfloor> \<le> length token" by linarith
  then show len: "length (take (nat \<lfloor>mx\<rfloor>) token) = nat \<lfloor>mx\<rfloor>" by simp
  have "0 \<le> \<lfloor>mx\<rfloor>" using assms(1) by simp
  then have "(of_nat (nat \<lfloor>mx\<rfloor>) :: rat) = of_int \<lfloor>mx\<rfloor>" by simp
  then show "of_nat (length (take (nat \<lfloor>mx\<rfloor>) token)) \<le> mx" using len by simp
qed

lemma sized:
  assumes "0 \<le> maxTokenSizeBytes eng" and "assemble reg P eng epoch v h = Inr token"
  shows "internal_createWith reg P eng epoch v h =
           (if of_nat (length token) > maxTokenSizeBytes eng
            then (if errorOnInvalid eng
                  then Inl (Error (size_exceeded (maxTokenSizeBytes eng)))
                  else Inr (take (nat \<lfloor>maxTokenSizeBytes eng\<rfloor>) token))
            else Inr token)"
  using assms by (simp add: internal_createWith_def slice0_nonneg Let_def)

lemma sized_bound:
  assumes "0 \<le> maxTokenSizeBytes eng" and "internal_createWith reg P eng epoch v h = Inr s"
  shows "of_nat (length s) \<le> maxTokenSizeBytes eng"
  using assms take_floor_length(2)[OF assms(1)]
  by (auto simp: internal_createWith_def slice0_nonneg Let_def split: sum.splits if_splits)

lemma unsized:
  assumes "assemble reg P eng epoch v h = Inl x"
  shows "internal_createWith reg P eng epoch v h = Inl x"
  using assms by (simp add: internal_createWith_def)

lemma b64_char_not_pad: "b64_char n \<noteq> CHR ''=''"
proof -
  have "n mod 64 < length b64_alphabet" by (simp add: b64_alphabet_def)
  then have "b64_char n \<in> set b64_alphabet" unfolding b64_char_def by (rule nth_mem)
  moreover have "CHR ''='' \<notin> set b64_alphabet" by (simp add: b64_alphabet_def)
  ultimately show ?thesis by metis
qed

lemma base64url_length: "length b \<le> length (bufferToBase64Url b)"
  unfolding bufferToBase64Url_def
  by (induction b rule: btoa.induct) (simp_all add: Let_def b64_char_not_pad)

lemma stringToBuffer_length: "length s \<le> length (stringToBuffer s)"
  unfolding stringToBuffer_def by (induction s) (simp_all add: Let_def)

lemma sample_assemble_long:
  assumes "keys eng = sample_keys" and "format eng = ''j''"
  shows "\<exists>token. assemble sample_registry sample_platform eng epoch s None = Inr token
                 \<and> length s \<le> length token"
proof -
  obtain sig where g: "generate sample_platform eng
       (join_with separator
          [String_of_number epoch, ''j'', bufferToBase64Url (stringToBuffer s)])
       (Own (sample_key ''k1'' 1)) = Inr (Signed sig ''k1'')"
    by (simp add: generate_def sample_key_def Let_def)
  have "assemble sample_registry sample_platform eng epoch s None
        = Inr (join_with separator
                 [prefix, sig, ''k1'', String_of_number epoch, ''j'',
                  bufferToBase64Url (stringToBuffer s)])"
    using g
    by (simp add: assemble_def assms sample_registry_j codec_encode_def signing_input_def
          text_codec_def sample_keys_get Let_def)
  moreover have "length s \<le> length (bufferToBase64Url (stringToBuffer s))"
    using stringToBuffer_length[of s] base64url_length[of "stringToBuffer s"] by linarith
  ultimately show ?thesis by simp
qed

lemma sample_engine_invalid_fields:
  "errorOnInvalid sample_engine_invalid = True" "errorOnExpired sample_engine_invalid = False"
  "errorOnEncoding sample_engine_invalid = True" "errorOnGenerate sample_engine_invalid = True"
  "expiresInSeconds sample_engine_invalid = 60" "leewaySeconds sample_engine_invalid = 1"
  "maxTokenSizeBytes sample_engine_invalid = 2048" "signatureSize sample_engine_invalid = 0"
  "algorithm sample_engine_invalid = ''SHA-256''" "format sample_engine_invalid = ''j''"
  "keys sample_engine_invalid = sample_keys"
  by (simp_all add: sample_engine_invalid_def configure_def default_options_def numeric_def
       supports_def truthy_def fround_numeral fround_zero fround_one Let_def)

lemma decimal_exponent_2048: "decimal_exponent 2048 = 4"
  by (simp add: decimal_exponent_def digits.simps)

lemma shortest_2048: "shortest 17 (Suc 0) 2048 4 = (4, 2048)"
  by (simp add: shortest_numeral pow10_def fround_numeral floor_rat_numeral Let_def)

lemma number_text_2048: "number_text 4 2048 = ''2048''"
  by (simp add: number_text_def digits.simps digit_char_def char_of_eval Let_def)

lemma size_exceeded_2048: "size_exceeded 2048 = ''hwt size exceeded 2048 bytes''"
  by (simp add: size_exceeded_def String_of_number_def fround_numeral decimal_exponent_2048
        shortest_2048 number_text_2048)

text \<open>
  C7.  For an engine made by the constructor, whatever the payload and the lifetime, a
  string returned by \<open>create\<close> or \<open>createWith\<close> is never longer than
  \<open>maxTokenSizeBytes\<close>.  When the token is assembled and is longer than the maximum, the
  call raises in strict mode (\<open>errorOnInvalid\<close>) and otherwise returns exactly the first
  \<open>maxTokenSizeBytes\<close> characters of the assembled string; when it is not longer, the
  call returns the assembled string unchanged.  When the token cannot be assembled, the
  call raises what encoding or signing raised.
\<close>

theorem token_size_bound:
  assumes eng: "eng = configure reg opts ko"
  shows "(\<forall>s. create reg P eng now v h = Inr s \<or> createWith reg P eng now ttl v h = Inr s
            \<longrightarrow> of_nat (length s) \<le> maxTokenSizeBytes eng)
       \<and> (\<forall>token.
            assemble reg P eng (number_add (of_int now) (expiresInSeconds eng)) v h = Inr token
            \<longrightarrow> create reg P eng now v h =
                  (if of_nat (length token) > maxTokenSizeBytes eng
                   then (if errorOnInvalid eng
                         then Inl (Error (size_exceeded (maxTokenSizeBytes eng)))
                         else Inr (take (nat \<lfloor>maxTokenSizeBytes eng\<rfloor>) token))
                   else Inr token))
       \<and> (\<forall>token.
            assemble reg P eng (expiresAt eng now ttl) v h = Inr token
            \<longrightarrow> createWith reg P eng now ttl v h =
                  (if of_nat (length token) > maxTokenSizeBytes eng
                   then (if errorOnInvalid eng
                         then Inl (Error (size_exceeded (maxTokenSizeBytes eng)))
                         else Inr (take (nat \<lfloor>maxTokenSizeBytes eng\<rfloor>) token))
                   else Inr token))
       \<and> (\<forall>token. of_nat (length token) > maxTokenSizeBytes eng
            \<longrightarrow> length (take (nat \<lfloor>maxTokenSizeBytes eng\<rfloor>) token)
                  = nat \<lfloor>maxTokenSizeBytes eng\<rfloor>)
       \<and> (\<forall>x. assemble reg P eng (number_add (of_int now) (expiresInSeconds eng)) v h = Inl x
            \<longrightarrow> create reg P eng now v h = Inl x)
       \<and> (\<forall>x. assemble reg P eng (expiresAt eng now ttl) v h = Inl x
            \<longrightarrow> createWith reg P eng now ttl v h = Inl x)"
proof -
  have nonneg: "0 \<le> maxTokenSizeBytes eng"
    using configure_max_bounds[of reg opts ko] eng by simp
  have first: "\<forall>s. create reg P eng now v h = Inr s \<or> createWith reg P eng now ttl v h = Inr s
            \<longrightarrow> of_nat (length s) \<le> maxTokenSizeBytes eng"
    using sized_bound[OF nonneg] by (auto simp: create_def createWith_def)
  have second: "\<forall>token.
            assemble reg P eng (number_add (of_int now) (expiresInSeconds eng)) v h = Inr token
            \<longrightarrow> create reg P eng now v h =
                  (if of_nat (length token) > maxTokenSizeBytes eng
                   then (if errorOnInvalid eng
                         then Inl (Error (size_exceeded (maxTokenSizeBytes eng)))
                         else Inr (take (nat \<lfloor>maxTokenSizeBytes eng\<rfloor>) token))
                   else Inr token)"
    unfolding create_def by (intro allI impI) (rule sized[OF nonneg])
  have third: "\<forall>token.
            assemble reg P eng (expiresAt eng now ttl) v h = Inr token
            \<longrightarrow> createWith reg P eng now ttl v h =
                  (if of_nat (length token) > maxTokenSizeBytes eng
                   then (if errorOnInvalid eng
                         then Inl (Error (size_exceeded (maxTokenSizeBytes eng)))
                         else Inr (take (nat \<lfloor>maxTokenSizeBytes eng\<rfloor>) token))
                   else Inr token)"
    unfolding createWith_def by (intro allI impI) (rule sized[OF nonneg])
  have fourth: "\<forall>token. of_nat (length token) > maxTokenSizeBytes eng
            \<longrightarrow> length (take (nat \<lfloor>maxTokenSizeBytes eng\<rfloor>) token)
                  = nat \<lfloor>maxTokenSizeBytes eng\<rfloor>"
    using take_floor_length(1)[OF nonneg] by blast
  have fifth: "\<forall>x. assemble reg P eng (number_add (of_int now) (expiresInSeconds eng)) v h
                    = Inl x
            \<longrightarrow> create reg P eng now v h = Inl x"
    unfolding create_def by (intro allI impI) (rule unsized)
  have sixth: "\<forall>x. assemble reg P eng (expiresAt eng now ttl) v h = Inl x
            \<longrightarrow> createWith reg P eng now ttl v h = Inl x"
    unfolding createWith_def by (intro allI impI) (rule unsized)
  from first second third fourth fifth sixth show ?thesis by blast
qed

text \<open>Three runs: a short token is returned unchanged; a payload of 3000 characters gives a
  string of exactly 2048 characters; in strict mode the same payload is refused.\<close>

theorem token_size_bound_witness:
  "create sample_registry sample_platform sample_engine 100 ''hi'' None
     = Inr ''hwt.mZmZmZmZmZmZmZmZmZmZmZmZmZmZmZmZmZmZmZmZmZk.k1.160.j.aGk''
   \<and> map_sum id length
       (createWith sample_registry sample_platform sample_engine 100 JsUndefined
          (replicate 3000 (CHR ''a'')) None)
     = Inr 2048
   \<and> create sample_registry sample_platform sample_engine_invalid 100
       (replicate 3000 (CHR ''a'')) None
     = Inl (Error ''hwt size exceeded 2048 bytes'')"
proof -
  define s where "s = replicate 3000 (CHR ''a'')"
  have len: "length s = 3000" by (simp add: s_def)
  have e: "sample_engine = configure sample_registry default_options sample_keys"
    by (simp add: sample_engine_def)
  have e': "sample_engine_invalid =
              configure sample_registry (default_options\<lparr>opt_errorOnInvalid := JsBoolean True\<rparr>)
                sample_keys"
    by (simp add: sample_engine_invalid_def)
  have short: "assemble sample_registry sample_platform sample_engine
            (number_add (of_int 100) (expiresInSeconds sample_engine)) ''hi'' None
          = Inr ''hwt.mZmZmZmZmZmZmZmZmZmZmZmZmZmZmZmZmZmZmZmZmZk.k1.160.j.aGk''"
    by (simp add: number_add_def fround_numeral sample_engine_fields sample_assemble)
  have a: "create sample_registry sample_platform sample_engine 100 ''hi'' None
     = Inr ''hwt.mZmZmZmZmZmZmZmZmZmZmZmZmZmZmZmZmZmZmZmZmZk.k1.160.j.aGk''"
    using token_size_bound[OF e, of sample_platform 100 "''hi''" None JsUndefined,
            THEN conjunct2, THEN conjunct1, rule_format, OF short]
    by (simp add: sample_engine_fields)
  obtain token where token:
    "assemble sample_registry sample_platform sample_engine
       (expiresAt sample_engine 100 JsUndefined) s None = Inr token"
    "length s \<le> length token"
    using sample_assemble_long[of sample_engine "expiresAt sample_engine 100 JsUndefined" s]
    by (auto simp: sample_engine_fields)
  have "createWith sample_registry sample_platform sample_engine 100 JsUndefined s None
             = Inr (take 2048 token)"
    using token_size_bound[OF e, of sample_platform 100 s None JsUndefined,
            THEN conjunct2, THEN conjunct2, THEN conjunct1, rule_format, OF token(1)]
      token(2) len
    by (simp add: sample_engine_fields)
  then have b: "map_sum id length
       (createWith sample_registry sample_platform sample_engine 100 JsUndefined s None)
     = Inr 2048"
    using token(2) len by simp
  obtain token' where token':
    "assemble sample_registry sample_platform sample_engine_invalid
       (number_add (of_int 100) (expiresInSeconds sample_engine_invalid)) s None = Inr token'"
    "length s \<le> length token'"
    using sample_assemble_long[of sample_engine_invalid
            "number_add (of_int 100) (expiresInSeconds sample_engine_invalid)" s]
    by (auto simp: sample_engine_invalid_fields)
  have c: "create sample_registry sample_platform sample_engine_invalid 100 s None
     = Inl (Error ''hwt size exceeded 2048 bytes'')"
    using token_size_bound[OF e', of sample_platform 100 s None JsUndefined,
            THEN conjunct2, THEN conjunct1, rule_format, OF token'(1)]
      token'(2) len
    by (simp add: sample_engine_invalid_fields size_exceeded_2048)
  from a b c show ?thesis by (simp add: s_def)
qed

section \<open>Expiry and leeway\<close>

lemma isExpired_Finite:
  assumes "Number_of_string e = Finite (of_int T)" and "now - T \<le> 2 ^ 53"
  shows "isExpired eng now e =
           (if T \<le> now
            then \<lparr>t_expires = Finite (of_int T), t_expired = True,
                  t_validTime = (of_int (now - T) \<le> leewaySeconds eng),
                  t_withinLeeway = Some (of_int (now - T) \<le> leewaySeconds eng)\<rparr>
            else \<lparr>t_expires = Finite (of_int T), t_expired = False, t_validTime = True,
                  t_withinLeeway = None\<rparr>)"
proof -
  have sub: "fround (of_int now - of_int T) = Finite (of_int (now - T))" if "T \<le> now"
    using fround_of_int[of "now - T"] assms(2) that by simp
  show ?thesis
  proof (cases "T = 0")
    case True
    then show ?thesis using assms(1) sub by (simp add: isExpired_def truthy_def Let_def)
  next
    case False
    then have "truthy (Finite (of_int T))" by (simp add: truthy_def)
    then show ?thesis using assms(1) sub by (simp add: isExpired_def Let_def)
  qed
qed

lemma verify_structure:
  assumes "verify reg P eng now payload h = Inr r" and "ok r"
  shows "take (length prefix) payload = prefix"
    and "of_nat (length payload) \<le> maxTokenSizeBytes eng"
    and "6 \<le> length (split_on separator payload)"
  using assms by (auto simp: verify_def fail_def Let_def split: if_splits)

lemma verify_after_structure:
  assumes "take (length prefix) payload = prefix"
    and "of_nat (length payload) \<le> maxTokenSizeBytes eng"
    and "6 \<le> length (split_on separator payload)"
  shows "verify reg P eng now payload h =
     (let parts = split_on separator payload;
          time = isExpired eng now (parts ! 3);
          res1 = \<lparr>ok = False, data = None, error = None,
                   validTime = Some (t_validTime time), expired = Some (t_expired time),
                   expires = Some (t_expires time), withinLeeway = None\<rparr>;
          res2 = (if t_expired time then res1\<lparr>withinLeeway := t_withinLeeway time\<rparr> else res1)
      in if t_expired time \<and> \<not> t_validTime time
         then fail (errorOnExpired eng) res2 ''hwt expired''
         else verify_signed reg P eng res2 (parts ! 1) (parts ! 2) (parts ! 3) (parts ! 4)
                (parts ! 5) h)"
  using assms by (simp add: verify_def Let_def)

lemma verify_reaches_signature:
  assumes "verify reg P eng now payload h = Inr r" and "ok r"
  shows "\<exists>res. \<not> ok res
           \<and> verify_signed reg P eng res
                (split_on separator payload ! 1) (split_on separator payload ! 2)
                (split_on separator payload ! 3) (split_on separator payload ! 4)
                (split_on separator payload ! 5) h = Inr r"
proof -
  note s = verify_structure[OF assms]
  let ?parts = "split_on separator payload"
  let ?time = "isExpired eng now (?parts ! 3)"
  let ?res1 = "\<lparr>ok = False, data = None, error = None,
                   validTime = Some (t_validTime ?time), expired = Some (t_expired ?time),
                   expires = Some (t_expires ?time), withinLeeway = None\<rparr> :: 'a result"
  let ?res2 = "if t_expired ?time then ?res1\<lparr>withinLeeway := t_withinLeeway ?time\<rparr> else ?res1"
  have v: "verify reg P eng now payload h =
            (if t_expired ?time \<and> \<not> t_validTime ?time
             then fail (errorOnExpired eng) ?res2 ''hwt expired''
             else verify_signed reg P eng ?res2 (?parts ! 1) (?parts ! 2) (?parts ! 3)
                    (?parts ! 4) (?parts ! 5) h)"
    using verify_after_structure[OF s, of reg P now h] by (simp add: Let_def)
  have nok: "\<not> ok ?res2" by simp
  show ?thesis
  proof (cases "t_expired ?time \<and> \<not> t_validTime ?time")
    case True
    have "verify reg P eng now payload h = fail (errorOnExpired eng) ?res2 ''hwt expired''"
      by (simp only: v if_P[OF True])
    then have False using assms by (auto simp: fail_def split: if_splits)
    then show ?thesis ..
  next
    case False
    have "verify reg P eng now payload h =
            verify_signed reg P eng ?res2 (?parts ! 1) (?parts ! 2) (?parts ! 3)
                    (?parts ! 4) (?parts ! 5) h"
      by (simp only: v if_not_P[OF False])
    then have "verify_signed reg P eng ?res2 (?parts ! 1) (?parts ! 2) (?parts ! 3)
                    (?parts ! 4) (?parts ! 5) h = Inr r"
      using assms(1) by simp
    with nok show ?thesis by blast
  qed
qed

lemma verify_accepts:
  assumes "verify reg P eng now payload h = Inr r" and "ok r"
  shows "\<exists>d. \<forall>res'. verify_signed reg P eng res'
                (split_on separator payload ! 1) (split_on separator payload ! 2)
                (split_on separator payload ! 3) (split_on separator payload ! 4)
                (split_on separator payload ! 5) h
              = Inr (res'\<lparr>ok := True, data := Some d\<rparr>)"
proof -
  from verify_reaches_signature[OF assms] obtain res where
    "\<not> ok res"
    "verify_signed reg P eng res
                (split_on separator payload ! 1) (split_on separator payload ! 2)
                (split_on separator payload ! 3) (split_on separator payload ! 4)
                (split_on separator payload ! 5) h = Inr r"
    by blast
  from verify_signed_accepts[OF this(2) assms(2) this(1)] show ?thesis .
qed

text \<open>
  C2 (as the code has it).  Take a token that the engine accepts at some moment (so its
  structure, codec, key, signature and payload are in order), whose expiry field reads as
  the whole number \<open>T\<close>, and an engine whose leeway is a whole number \<open>L\<close> from 0 to 30.
  Then at \<open>now = T - 1\<close> the result has \<open>ok = true\<close> and \<open>expired = false\<close>; at \<open>now = T\<close>
  and at \<open>now = T + L\<close> it has \<open>ok = true\<close>, \<open>expired = true\<close> and
  \<open>withinLeeway = true\<close>.  At \<open>now = T + L + 1\<close> an engine without \<open>errorOnExpired\<close>
  returns a result with \<open>ok = false\<close>, \<open>expired = true\<close>, \<open>withinLeeway = false\<close> and the
  error \<open>hwt expired\<close>; an engine with \<open>errorOnExpired\<close> returns no result and raises
  that error.
\<close>

theorem expiry_leeway:
  assumes accepted: "verify reg P eng now0 payload h = Inr r0" "ok r0"
    and field: "Number_of_string (split_on separator payload ! 3) = Finite (of_int T)"
    and leeway: "leewaySeconds eng = of_int L" "0 \<le> L" "L \<le> 30"
  shows "(\<exists>r. verify reg P eng (T - 1) payload h = Inr r \<and> ok r \<and> expired r = Some False)
       \<and> (\<exists>r. verify reg P eng T payload h = Inr r \<and> ok r \<and> expired r = Some True
                \<and> withinLeeway r = Some True)
       \<and> (\<exists>r. verify reg P eng (T + L) payload h = Inr r \<and> ok r \<and> expired r = Some True
                \<and> withinLeeway r = Some True)
       \<and> (if errorOnExpired eng
           then verify reg P eng (T + L + 1) payload h = Inl (Error ''hwt expired'')
           else (\<exists>r. verify reg P eng (T + L + 1) payload h = Inr r \<and> \<not> ok r
                      \<and> expired r = Some True \<and> withinLeeway r = Some False
                      \<and> error r = Some ''hwt expired''))"
proof -
  note s = verify_structure[OF accepted]
  from verify_accepts[OF accepted] obtain d where
    d: "\<And>res'. verify_signed reg P eng res'
                (split_on separator payload ! 1) (split_on separator payload ! 2)
                (split_on separator payload ! 3) (split_on separator payload ! 4)
                (split_on separator payload ! 5) h
              = Inr (res'\<lparr>ok := True, data := Some d\<rparr>)"
    by blast
  have small: "n \<le> 31 \<Longrightarrow> n \<le> 2 ^ 53" for n :: int by simp
  have e: "isExpired eng now (split_on separator payload ! 3) =
           (if T \<le> now
            then \<lparr>t_expires = Finite (of_int T), t_expired = True,
                  t_validTime = (of_int (now - T) \<le> leewaySeconds eng),
                  t_withinLeeway = Some (of_int (now - T) \<le> leewaySeconds eng)\<rparr>
            else \<lparr>t_expires = Finite (of_int T), t_expired = False, t_validTime = True,
                  t_withinLeeway = None\<rparr>)"
    if "now - T \<le> 31" for now
    using isExpired_Finite[OF field small[OF that], of eng] .
  have before: "\<exists>r. verify reg P eng (T - 1) payload h = Inr r \<and> ok r \<and> expired r = Some False"
    using verify_after_structure[OF s, of reg P "T - 1" h] e[of "T - 1"] d
    by (simp add: Let_def)
  have at: "\<exists>r. verify reg P eng T payload h = Inr r \<and> ok r \<and> expired r = Some True
                \<and> withinLeeway r = Some True"
    using verify_after_structure[OF s, of reg P T h] e[of T] d leeway
    by (simp add: Let_def)
  have edge: "\<exists>r. verify reg P eng (T + L) payload h = Inr r \<and> ok r \<and> expired r = Some True
                \<and> withinLeeway r = Some True"
    using verify_after_structure[OF s, of reg P "T + L" h] e[of "T + L"] d leeway
    by (simp add: Let_def)
  have after: "if errorOnExpired eng
           then verify reg P eng (T + L + 1) payload h = Inl (Error ''hwt expired'')
           else (\<exists>r. verify reg P eng (T + L + 1) payload h = Inr r \<and> \<not> ok r
                      \<and> expired r = Some True \<and> withinLeeway r = Some False
                      \<and> error r = Some ''hwt expired'')"
    using verify_after_structure[OF s, of reg P "T + L + 1" h] e[of "T + L + 1"] leeway
    by (simp add: Let_def fail_def)
  from before at edge after show ?thesis by blast
qed

lemma sample_field_160:
  "Number_of_string
     (split_on separator ''hwt.mZmZmZmZmZmZmZmZmZmZmZmZmZmZmZmZmZmZmZmZmZk.k1.160.j.aGk'' ! 3)
   = Finite (of_int 160)"
  by (simp add: sample_split Number_of_string_160 del: split_on.simps)

theorem expiry_leeway_witness:
  "(\<exists>r. verify sample_registry sample_platform sample_engine 159
          ''hwt.mZmZmZmZmZmZmZmZmZmZmZmZmZmZmZmZmZmZmZmZmZk.k1.160.j.aGk'' None = Inr r
        \<and> ok r \<and> expired r = Some False)
   \<and> (\<exists>r. verify sample_registry sample_platform sample_engine 160
          ''hwt.mZmZmZmZmZmZmZmZmZmZmZmZmZmZmZmZmZmZmZmZmZk.k1.160.j.aGk'' None = Inr r
        \<and> ok r \<and> expired r = Some True \<and> withinLeeway r = Some True)
   \<and> (\<exists>r. verify sample_registry sample_platform sample_engine 161
          ''hwt.mZmZmZmZmZmZmZmZmZmZmZmZmZmZmZmZmZmZmZmZmZk.k1.160.j.aGk'' None = Inr r
        \<and> ok r \<and> expired r = Some True \<and> withinLeeway r = Some True)
   \<and> (\<exists>r. verify sample_registry sample_platform sample_engine 162
          ''hwt.mZmZmZmZmZmZmZmZmZmZmZmZmZmZmZmZmZmZmZmZmZk.k1.160.j.aGk'' None = Inr r
        \<and> \<not> ok r \<and> expired r = Some True \<and> withinLeeway r = Some False
        \<and> error r = Some ''hwt expired'')"
proof -
  have l: "leewaySeconds sample_engine = of_int 1" by (simp add: sample_engine_fields)
  from expiry_leeway[OF sample_verify_100 _ sample_field_160 l]
  show ?thesis by (simp add: sample_engine_fields)
qed

lemma sample_verify_strict_100:
  "verify sample_registry sample_platform sample_engine_strict 100
     ''hwt.mZmZmZmZmZmZmZmZmZmZmZmZmZmZmZmZmZmZmZmZmZk.k1.160.j.aGk'' None
   = Inr \<lparr>ok = True, data = Some ''hi'', error = None, validTime = Some True,
          expired = Some False, expires = Some (Finite 160), withinLeeway = None\<rparr>"
  by (simp add: verify_def prefix_def sample_engine_strict_fields sample_split isExpired_100
        sample_verify_signed Let_def del: split_on.simps)

lemma isExpired_strict_162:
  "isExpired sample_engine_strict 162 ''160'' =
     \<lparr>t_expires = Finite 160, t_expired = True, t_validTime = False,
      t_withinLeeway = Some False\<rparr>"
proof -
  have "Number_of_string ''160'' = Finite (of_int 160)" by (simp add: Number_of_string_160)
  from isExpired_Finite[OF this, of 162 sample_engine_strict]
  show ?thesis by (simp add: sample_engine_strict_fields)
qed

text \<open>
  C2 as stated fails: the engine below has \<open>errorOnExpired\<close> set, a leeway of 1 and accepts
  the token, whose expiry is 160, at the time 100.  At the time 162, which is
  \<open>T + L + 1\<close>, \<open>verify\<close> returns no result: it raises.
\<close>

theorem expiry_strict_counterexample:
  "errorOnExpired sample_engine_strict \<and> leewaySeconds sample_engine_strict = 1
   \<and> verify sample_registry sample_platform sample_engine_strict 100
       ''hwt.mZmZmZmZmZmZmZmZmZmZmZmZmZmZmZmZmZmZmZmZmZk.k1.160.j.aGk'' None
     = Inr \<lparr>ok = True, data = Some ''hi'', error = None, validTime = Some True,
            expired = Some False, expires = Some (Finite 160), withinLeeway = None\<rparr>
   \<and> verify sample_registry sample_platform sample_engine_strict 162
       ''hwt.mZmZmZmZmZmZmZmZmZmZmZmZmZmZmZmZmZmZmZmZmZk.k1.160.j.aGk'' None
     = Inl (Error ''hwt expired'')"
proof -
  have "verify sample_registry sample_platform sample_engine_strict 162
       ''hwt.mZmZmZmZmZmZmZmZmZmZmZmZmZmZmZmZmZmZmZmZmZk.k1.160.j.aGk'' None
     = Inl (Error ''hwt expired'')"
    by (simp add: verify_def prefix_def sample_engine_strict_fields sample_split
          isExpired_strict_162 fail_def Let_def del: split_on.simps)
  then show ?thesis by (simp add: sample_verify_strict_100 sample_engine_strict_fields)
qed

section \<open>What is signed\<close>

lemma take_prefix_length:
  assumes "take (length prefix) p = prefix"
  shows "length prefix \<le> length p"
proof -
  have "min (length p) (length prefix) = length prefix"
    using arg_cong[OF assms, of length] by simp
  then show ?thesis by simp
qed

lemma take_prefix_append:
  assumes "take (length prefix) p = prefix"
  shows "take (length prefix) (p @ s) = prefix"
  using take_prefix_length[OF assms] assms by simp

lemma verify_first_field:
  assumes "take (length prefix) p = prefix" and "separator \<notin> set p"
  shows "verify reg P eng now (p @ separator # rest) h =
     (if of_nat (length p + 1 + length rest) > maxTokenSizeBytes eng
      then fail (errorOnInvalid eng)
             \<lparr>ok = False, data = None, error = None, validTime = None, expired = None,
              expires = None, withinLeeway = None\<rparr> ''hwt invalid''
      else verify reg P eng now (prefix @ separator # rest) h)"
proof -
  have p: "take (length prefix) (p @ separator # rest) = prefix"
    using take_prefix_append[OF assms(1)] .
  have q: "take (length prefix) (prefix @ separator # rest) = prefix" by simp
  have sp: "split_on separator (p @ separator # rest) = p # split_on separator rest"
    using split_on_append[OF assms(2)] .
  have "separator \<notin> set prefix" by (simp add: prefix_def separator_def)
  then have sq: "split_on separator (prefix @ separator # rest) = prefix # split_on separator rest"
    by (rule split_on_append)
  have len: "length prefix \<le> length p"
    using take_prefix_length[OF assms(1)] .
  show ?thesis
  proof (cases "of_nat (length p + 1 + length rest) > maxTokenSizeBytes eng")
    case True
    then show ?thesis using p by (simp add: verify_def)
  next
    case False
    have "(of_nat (length prefix + 1 + length rest) :: rat) \<le> of_nat (length p + 1 + length rest)"
      using len by simp
    then have small: "\<not> of_nat (length prefix + 1 + length rest) > maxTokenSizeBytes eng"
      using False by linarith
    show ?thesis
      using False small
      by (simp only: verify_def p q sp sq Let_def length_append list.size nth_Cons_numeral
            nth_Cons_Suc One_nat_def) simp
  qed
qed

lemma first_field_invariance:
  assumes "take (length prefix) p = prefix" and "separator \<notin> set p"
    and "take (length prefix) p' = prefix" and "separator \<notin> set p'"
    and "of_nat (length (p @ separator # rest)) \<le> maxTokenSizeBytes eng"
    and "of_nat (length (p' @ separator # rest)) \<le> maxTokenSizeBytes eng"
  shows "verify reg P eng now (p' @ separator # rest) h
         = verify reg P eng now (p @ separator # rest) h"
  using verify_first_field[OF assms(1,2), of reg P eng now rest h]
    verify_first_field[OF assms(3,4), of reg P eng now rest h] assms(5,6)
  by simp

lemma verify_signed_key_field:
  assumes "keys_get (keys eng) kid = keys_get (keys eng) kid'"
  shows "verify_signed reg P eng res sig kid e fmt shown h
         = verify_signed reg P eng res sig kid' e fmt shown h"
  unfolding verify_signed_def assms ..

lemma key_field_invariance:
  assumes "take (length prefix) p = prefix"
    and "separator \<notin> set p" and "separator \<notin> set sig"
    and "separator \<notin> set kid" and "separator \<notin> set kid'"
    and "keys_get (keys eng) kid = keys_get (keys eng) kid'"
    and "of_nat (length (p @ separator # sig @ separator # kid @ separator # rest))
           \<le> maxTokenSizeBytes eng"
    and "of_nat (length (p @ separator # sig @ separator # kid' @ separator # rest))
           \<le> maxTokenSizeBytes eng"
  shows "verify reg P eng now (p @ separator # sig @ separator # kid' @ separator # rest) h
         = verify reg P eng now (p @ separator # sig @ separator # kid @ separator # rest) h"
proof -
  have s: "split_on separator (p @ separator # sig @ separator # k @ separator # rest)
           = p # sig # k # split_on separator rest" if "separator \<notin> set k" for k
    using assms(2,3) that by (simp add: split_on_append)
  have t: "take (length prefix) (p @ s) = prefix" for s
    using take_prefix_append[OF assms(1)] .
  show ?thesis
    using assms(7,8)
    by (simp only: verify_def s[OF assms(4)] s[OF assms(5)] t Let_def list.size
          nth_Cons_numeral nth_Cons_Suc nth_Cons_0 One_nat_def
          verify_signed_key_field[OF assms(6)])
       (simp add: verify_signed_key_field[OF assms(6)])
qed

lemma assemble_signs:
  assumes "assemble reg P eng epoch v h = Inr token"
  shows "\<exists>shown hidden sig kid.
           codec_encode (codecs_get reg (format eng)) v = Inr shown
           \<and> (case h of
                None \<Rightarrow> hidden = []
              | Some x \<Rightarrow>
                  (\<exists>hid. codec_encode (codecs_get reg (format eng)) x = Inr hid
                         \<and> hidden = [bufferToBase64Url hid]))
           \<and> generate P eng
               (join_with separator
                  ([String_of_number epoch, format eng, bufferToBase64Url shown] @ hidden))
               (keys_get (keys eng) ''current'') = Inr (Signed sig kid)
           \<and> token = join_with separator
                 [prefix, sig, kid, String_of_number epoch, format eng, bufferToBase64Url shown]"
  using assms
  by (auto simp: assemble_def signing_input_def Let_def
           split: sum.splits generated.splits option.splits)

lemma verify_signed_compares:
  assumes "verify_signed reg P eng res sig kid e fmt shown h = Inr r" and "ok r" and "\<not> ok res"
  shows "\<exists>hidden resign kid'.
           (case h of
              None \<Rightarrow> hidden = []
            | Some x \<Rightarrow>
                (\<exists>hid. codec_encode (codecs_get reg (if fmt = [] then format eng else fmt)) x
                         = Inr hid
                       \<and> hidden = [bufferToBase64Url hid]))
           \<and> generate P eng (join_with separator ([e, fmt, shown] @ hidden))
               (keys_get (keys eng) kid) = Inr (Signed resign kid')
           \<and> timingSafeEqual (Str sig) (Str resign)"
  using assms
  by (auto simp: verify_signed_def signing_input_def fail_def Let_def
           split: if_splits sum.splits option.splits generated.splits)

text \<open>
  C10 (as the code has it).  When a token is assembled, its signature is made over the
  text of the expiry, the format name and the encoded payload, and over the encoded hidden
  input after them when there is one; the prefix and the key id are put into the token
  but not into the signed text.  When a token is accepted, its signature field compares
  equal to the signature made, with the key that the key id names, over the token's
  expiry, format and payload fields and the encoded hidden input.  Hence for first fields
  \<open>p\<close> and \<open>p'\<close> that both start with \<open>hwt\<close> and contain no separator, the tokens
  \<open>p.rest\<close> and \<open>p'.rest\<close> get the same result from \<open>verify\<close>, and so do two tokens that
  differ only in key ids under which the engine holds the same key, provided in either
  case that neither token is longer than \<open>maxTokenSizeBytes\<close>.
\<close>

theorem signed_fields:
  "(\<forall>token. assemble reg P eng epoch v h = Inr token \<longrightarrow>
      (\<exists>shown hidden sig kid.
         codec_encode (codecs_get reg (format eng)) v = Inr shown
         \<and> (case h of
              None \<Rightarrow> hidden = []
            | Some x \<Rightarrow>
                (\<exists>hid. codec_encode (codecs_get reg (format eng)) x = Inr hid
                       \<and> hidden = [bufferToBase64Url hid]))
         \<and> generate P eng
             (join_with separator
                ([String_of_number epoch, format eng, bufferToBase64Url shown] @ hidden))
             (keys_get (keys eng) ''current'') = Inr (Signed sig kid)
         \<and> token = join_with separator
               [prefix, sig, kid, String_of_number epoch, format eng, bufferToBase64Url shown]))
   \<and> (\<forall>r. verify reg P eng now payload h = Inr r \<and> ok r \<longrightarrow>
        (\<exists>hidden resign kid'.
           (case h of
              None \<Rightarrow> hidden = []
            | Some x \<Rightarrow>
                (\<exists>hid. codec_encode
                          (codecs_get reg (if split_on separator payload ! 4 = []
                                           then format eng
                                           else split_on separator payload ! 4)) x
                         = Inr hid
                       \<and> hidden = [bufferToBase64Url hid]))
           \<and> generate P eng
               (join_with separator
                  ([split_on separator payload ! 3, split_on separator payload ! 4,
                    split_on separator payload ! 5] @ hidden))
               (keys_get (keys eng) (split_on separator payload ! 2))
             = Inr (Signed resign kid')
           \<and> timingSafeEqual (Str (split_on separator payload ! 1)) (Str resign)))
   \<and> (\<forall>p p' rest.
        take (length prefix) p = prefix \<and> separator \<notin> set p
        \<and> take (length prefix) p' = prefix \<and> separator \<notin> set p'
        \<and> of_nat (length (p @ separator # rest)) \<le> maxTokenSizeBytes eng
        \<and> of_nat (length (p' @ separator # rest)) \<le> maxTokenSizeBytes eng
        \<longrightarrow> verify reg P eng now (p' @ separator # rest) h
            = verify reg P eng now (p @ separator # rest) h)
   \<and> (\<forall>p sig kid kid' rest.
        take (length prefix) p = prefix \<and> separator \<notin> set p \<and> separator \<notin> set sig
        \<and> separator \<notin> set kid \<and> separator \<notin> set kid'
        \<and> keys_get (keys eng) kid = keys_get (keys eng) kid'
        \<and> of_nat (length (p @ separator # sig @ separator # kid @ separator # rest))
            \<le> maxTokenSizeBytes eng
        \<and> of_nat (length (p @ separator # sig @ separator # kid' @ separator # rest))
            \<le> maxTokenSizeBytes eng
        \<longrightarrow> verify reg P eng now (p @ separator # sig @ separator # kid' @ separator # rest) h
            = verify reg P eng now (p @ separator # sig @ separator # kid @ separator # rest) h)"
proof -
  have a: "\<forall>token. assemble reg P eng epoch v h = Inr token \<longrightarrow>
      (\<exists>shown hidden sig kid.
         codec_encode (codecs_get reg (format eng)) v = Inr shown
         \<and> (case h of
              None \<Rightarrow> hidden = []
            | Some x \<Rightarrow>
                (\<exists>hid. codec_encode (codecs_get reg (format eng)) x = Inr hid
                       \<and> hidden = [bufferToBase64Url hid]))
         \<and> generate P eng
             (join_with separator
                ([String_of_number epoch, format eng, bufferToBase64Url shown] @ hidden))
             (keys_get (keys eng) ''current'') = Inr (Signed sig kid)
         \<and> token = join_with separator
               [prefix, sig, kid, String_of_number epoch, format eng, bufferToBase64Url shown])"
    by (intro allI impI) (rule assemble_signs)
  have b: "\<exists>hidden resign kid'.
           (case h of
              None \<Rightarrow> hidden = []
            | Some x \<Rightarrow>
                (\<exists>hid. codec_encode
                          (codecs_get reg (if split_on separator payload ! 4 = []
                                           then format eng
                                           else split_on separator payload ! 4)) x
                         = Inr hid
                       \<and> hidden = [bufferToBase64Url hid]))
           \<and> generate P eng
               (join_with separator
                  ([split_on separator payload ! 3, split_on separator payload ! 4,
                    split_on separator payload ! 5] @ hidden))
               (keys_get (keys eng) (split_on separator payload ! 2))
             = Inr (Signed resign kid')
           \<and> timingSafeEqual (Str (split_on separator payload ! 1)) (Str resign)"
    if "verify reg P eng now payload h = Inr r" and "ok r" for r
  proof -
    from verify_reaches_signature[OF that] obtain res where
      "\<not> ok res"
      "verify_signed reg P eng res
                (split_on separator payload ! 1) (split_on separator payload ! 2)
                (split_on separator payload ! 3) (split_on separator payload ! 4)
                (split_on separator payload ! 5) h = Inr r"
      by blast
    from verify_signed_compares[OF this(2) that(2) this(1)] show ?thesis .
  qed
  have c: "\<forall>p p' rest.
        take (length prefix) p = prefix \<and> separator \<notin> set p
        \<and> take (length prefix) p' = prefix \<and> separator \<notin> set p'
        \<and> of_nat (length (p @ separator # rest)) \<le> maxTokenSizeBytes eng
        \<and> of_nat (length (p' @ separator # rest)) \<le> maxTokenSizeBytes eng
        \<longrightarrow> verify reg P eng now (p' @ separator # rest) h
            = verify reg P eng now (p @ separator # rest) h"
    using first_field_invariance[of _ _ _ eng reg P now h] by blast
  have d: "\<forall>p sig kid kid' rest.
        take (length prefix) p = prefix \<and> separator \<notin> set p \<and> separator \<notin> set sig
        \<and> separator \<notin> set kid \<and> separator \<notin> set kid'
        \<and> keys_get (keys eng) kid = keys_get (keys eng) kid'
        \<and> of_nat (length (p @ separator # sig @ separator # kid @ separator # rest))
            \<le> maxTokenSizeBytes eng
        \<and> of_nat (length (p @ separator # sig @ separator # kid' @ separator # rest))
            \<le> maxTokenSizeBytes eng
        \<longrightarrow> verify reg P eng now (p @ separator # sig @ separator # kid' @ separator # rest) h
            = verify reg P eng now (p @ separator # sig @ separator # kid @ separator # rest) h"
    using key_field_invariance[of _ _ _ _ eng _ reg P now h] by blast
  from a b c d show ?thesis by blast
qed

text \<open>On the sample engine: the token is signed over \<open>160.j.aGk\<close>; it is accepted with
  the first field \<open>hwtX\<close>, and with the key id \<open>current\<close> in place of \<open>k1\<close>.\<close>

theorem signed_fields_witness:
  "(\<exists>sig kid. generate sample_platform sample_engine ''160.j.aGk''
                 (keys_get (keys sample_engine) ''current'') = Inr (Signed sig kid)
              \<and> ''hwt.mZmZmZmZmZmZmZmZmZmZmZmZmZmZmZmZmZmZmZmZmZk.k1.160.j.aGk''
                  = join_with separator [prefix, sig, kid, ''160'', ''j'', ''aGk''])
   \<and> (\<exists>resign kid'. generate sample_platform sample_engine ''160.j.aGk''
                       (keys_get (keys sample_engine) ''k1'') = Inr (Signed resign kid')
                    \<and> timingSafeEqual (Str ''mZmZmZmZmZmZmZmZmZmZmZmZmZmZmZmZmZmZmZmZmZk'')
                        (Str resign))
   \<and> verify sample_registry sample_platform sample_engine 100
       ''hwtX.mZmZmZmZmZmZmZmZmZmZmZmZmZmZmZmZmZmZmZmZmZk.k1.160.j.aGk'' None
     = Inr \<lparr>ok = True, data = Some ''hi'', error = None, validTime = Some True,
            expired = Some False, expires = Some (Finite 160), withinLeeway = None\<rparr>
   \<and> verify sample_registry sample_platform sample_engine 100
       ''hwt.mZmZmZmZmZmZmZmZmZmZmZmZmZmZmZmZmZmZmZmZmZk.current.160.j.aGk'' None
     = Inr \<lparr>ok = True, data = Some ''hi'', error = None, validTime = Some True,
            expired = Some False, expires = Some (Finite 160), withinLeeway = None\<rparr>"
proof -
  note all = signed_fields[of sample_registry sample_platform sample_engine "Finite 160"
               "''hi''" None 100 "''hwt.mZmZmZmZmZmZmZmZmZmZmZmZmZmZmZmZmZmZmZmZmZk.k1.160.j.aGk''"]
  have asm: "assemble sample_registry sample_platform sample_engine (Finite 160) ''hi'' None
             = Inr ''hwt.mZmZmZmZmZmZmZmZmZmZmZmZmZmZmZmZmZmZmZmZmZk.k1.160.j.aGk''"
    by (simp add: sample_assemble sample_engine_fields)
  have a: "\<exists>sig kid. generate sample_platform sample_engine ''160.j.aGk''
                 (keys_get (keys sample_engine) ''current'') = Inr (Signed sig kid)
              \<and> ''hwt.mZmZmZmZmZmZmZmZmZmZmZmZmZmZmZmZmZmZmZmZmZk.k1.160.j.aGk''
                  = join_with separator [prefix, sig, kid, ''160'', ''j'', ''aGk'']"
    using all[THEN conjunct1, rule_format, OF asm]
    by (auto simp: sample_engine_fields sample_registry_j codec_encode_def text_codec_def
          base64url_hi String_of_number_160 separator_def)
  have ok: "ok \<lparr>ok = True, data = Some ''hi'', error = None, validTime = Some True,
               expired = Some False, expires = Some (Finite 160), withinLeeway = None\<rparr>"
    by simp
  have b: "\<exists>resign kid'. generate sample_platform sample_engine ''160.j.aGk''
                       (keys_get (keys sample_engine) ''k1'') = Inr (Signed resign kid')
                    \<and> timingSafeEqual (Str ''mZmZmZmZmZmZmZmZmZmZmZmZmZmZmZmZmZmZmZmZmZk'')
                        (Str resign)"
    using all[THEN conjunct2, THEN conjunct1, rule_format, OF conjI[OF sample_verify_100 ok]]
    by (simp add: sample_split[unfolded separator_def] separator_def del: split_on.simps)
  have "verify sample_registry sample_platform sample_engine 100
          (''hwtX'' @ separator # ''mZmZmZmZmZmZmZmZmZmZmZmZmZmZmZmZmZmZmZmZmZk.k1.160.j.aGk'') None
        = verify sample_registry sample_platform sample_engine 100
          (''hwt'' @ separator # ''mZmZmZmZmZmZmZmZmZmZmZmZmZmZmZmZmZmZmZmZmZk.k1.160.j.aGk'') None"
    by (rule all[THEN conjunct2, THEN conjunct2, THEN conjunct1, rule_format])
       (simp add: prefix_def separator_def sample_engine_fields)
  then have c: "verify sample_registry sample_platform sample_engine 100
       ''hwtX.mZmZmZmZmZmZmZmZmZmZmZmZmZmZmZmZmZmZmZmZmZk.k1.160.j.aGk'' None
     = Inr \<lparr>ok = True, data = Some ''hi'', error = None, validTime = Some True,
            expired = Some False, expires = Some (Finite 160), withinLeeway = None\<rparr>"
    using sample_verify_100 by (simp add: separator_def)
  have "verify sample_registry sample_platform sample_engine 100
          (''hwt'' @ separator # ''mZmZmZmZmZmZmZmZmZmZmZmZmZmZmZmZmZmZmZmZmZk'' @ separator
             # ''current'' @ separator # ''160.j.aGk'') None
        = verify sample_registry sample_platform sample_engine 100
          (''hwt'' @ separator # ''mZmZmZmZmZmZmZmZmZmZmZmZmZmZmZmZmZmZmZmZmZk'' @ separator
             # ''k1'' @ separator # ''160.j.aGk'') None"
    by (rule all[THEN conjunct2, THEN conjunct2, THEN conjunct2, rule_format])
       (simp add: prefix_def separator_def sample_engine_fields sample_keys_get)
  then have d: "verify sample_registry sample_platform sample_engine 100
       ''hwt.mZmZmZmZmZmZmZmZmZmZmZmZmZmZmZmZmZmZmZmZmZk.current.160.j.aGk'' None
     = Inr \<lparr>ok = True, data = Some ''hi'', error = None, validTime = Some True,
            expired = Some False, expires = Some (Finite 160), withinLeeway = None\<rparr>"
    using sample_verify_100 by (simp add: separator_def)
  from a b c d show ?thesis by blast
qed

lemma sample_verify_oversized:
  "verify sample_registry sample_platform sample_engine 100
     (''hwt'' @ replicate 2048 (CHR ''X'')
        @ ''.mZmZmZmZmZmZmZmZmZmZmZmZmZmZmZmZmZmZmZmZmZk.k1.160.j.aGk'') None
   = Inr \<lparr>ok = False, data = None, error = Some ''hwt invalid'', validTime = None,
          expired = None, expires = None, withinLeeway = None\<rparr>"
  by (simp add: verify_def prefix_def sample_engine_fields fail_def del: split_on.simps)

text \<open>
  C10 as stated fails: the token below is accepted, but with its first field replaced by
  \<open>hwt\<close> followed by 2048 more characters the token is longer than \<open>maxTokenSizeBytes\<close>
  and is rejected as invalid.
\<close>

theorem prefix_field_counterexample:
  "verify sample_registry sample_platform sample_engine 100
     ''hwt.mZmZmZmZmZmZmZmZmZmZmZmZmZmZmZmZmZmZmZmZmZk.k1.160.j.aGk'' None
   = Inr \<lparr>ok = True, data = Some ''hi'', error = None, validTime = Some True,
          expired = Some False, expires = Some (Finite 160), withinLeeway = None\<rparr>
   \<and> verify sample_registry sample_platform sample_engine 100
     (''hwt'' @ replicate 2048 (CHR ''X'')
        @ ''.mZmZmZmZmZmZmZmZmZmZmZmZmZmZmZmZmZmZmZmZmZk.k1.160.j.aGk'') None
   = Inr \<lparr>ok = False, data = None, error = Some ''hwt invalid'', validTime = None,
          expired = None, expires = None, withinLeeway = None\<rparr>"
  using sample_verify_100 sample_verify_oversized by simp

section \<open>Raised and returned failures\<close>

lemma default_flags:
  "errorOnInvalid (configure reg default_options ko) = False"
  "errorOnExpired (configure reg default_options ko) = False"
  "errorOnEncoding (configure reg default_options ko) = True"
  "errorOnGenerate (configure reg default_options ko) = True"
  by (simp_all add: configure_def default_options_def Let_def split: prod.splits)

lemma verify_signed_raises:
  assumes "verify_signed reg P eng res sig kid e fmt shown h = Inl x"
  shows "(errorOnEncoding eng \<and> (x = Error (unknown_encoding fmt)
                                  \<or> x = Error ''hwt data encoding failed''))
       \<or> (errorOnInvalid eng \<and> (x = Error ''hwt unknown key''
                                  \<or> x = Error ''hwt invalid signature''))
       \<or> (errorOnGenerate eng \<and> x = Error ''hwt failed to generate HMAC signature'')
       \<or> (\<not> errorOnGenerate eng \<and> x = TypeError)"
  using assms
  by (auto simp: verify_signed_def signing_input_def fail_def generate_def Let_def
           split: if_splits sum.splits option.splits generated.splits slot.splits)

lemma verify_signed_reports:
  assumes "verify_signed reg P eng res sig kid e fmt shown h = Inr r" and "\<not> ok r"
  shows "error r = Some (unknown_encoding fmt) \<and> \<not> errorOnEncoding eng
       \<or> error r = Some ''hwt data encoding failed'' \<and> \<not> errorOnEncoding eng
       \<or> error r = Some ''hwt unknown key''
       \<or> error r = Some ''hwt invalid signature''
       \<or> error r = Some ''hwt data decoding failed''"
  using assms
  by (auto simp: verify_signed_def signing_input_def fail_def Let_def
           split: if_splits sum.splits option.splits generated.splits)

text \<open>
  C4 (as the code has it).  For an engine constructed with default options, \<open>verify\<close>
  raises only for a format name without a codec or a hidden input that fails to encode
  (\<open>errorOnEncoding\<close> is on by default), or when no signature can be generated; every other
  failure (a structurally invalid token, an expired token, an unknown key, a signature
  mismatch, a payload that does not decode) is returned with \<open>ok = false\<close> and its message
  in the result's \<open>error\<close> field.  \<open>create\<close> and \<open>createWith\<close> raise only what assembling
  the token raises (encoding or signing): an oversized token is truncated, not refused.
\<close>

theorem default_mode_failures:
  assumes eng: "eng = configure reg default_options ko"
  shows "(\<forall>x. verify reg P eng now payload h = Inl x \<longrightarrow>
            x = Error (unknown_encoding (split_on separator payload ! 4))
            \<or> x = Error ''hwt data encoding failed''
            \<or> x = Error ''hwt failed to generate HMAC signature'')
       \<and> (\<forall>r. verify reg P eng now payload h = Inr r \<and> \<not> ok r \<longrightarrow>
            error r = Some ''hwt invalid'' \<or> error r = Some ''hwt invalid format''
            \<or> error r = Some ''hwt expired'' \<or> error r = Some ''hwt unknown key''
            \<or> error r = Some ''hwt invalid signature''
            \<or> error r = Some ''hwt data decoding failed'')
       \<and> (\<forall>x. create reg P eng now v h = Inl x \<longrightarrow>
            assemble reg P eng (number_add (of_int now) (expiresInSeconds eng)) v h = Inl x)
       \<and> (\<forall>x. createWith reg P eng now ttl v h = Inl x \<longrightarrow>
            assemble reg P eng (expiresAt eng now ttl) v h = Inl x)"
proof -
  note f = default_flags[of reg ko, folded eng]
  have raised: "x = Error (unknown_encoding (split_on separator payload ! 4))
            \<or> x = Error ''hwt data encoding failed''
            \<or> x = Error ''hwt failed to generate HMAC signature''"
    if "verify reg P eng now payload h = Inl x" for x
  proof -
    from that obtain res where
      "verify_signed reg P eng res (split_on separator payload ! 1)
         (split_on separator payload ! 2) (split_on separator payload ! 3)
         (split_on separator payload ! 4) (split_on separator payload ! 5) h = Inl x"
      using f by (auto simp: verify_def fail_def Let_def split: if_splits)
    from verify_signed_raises[OF this] show ?thesis using f by auto
  qed
  have returned: "error r = Some ''hwt invalid'' \<or> error r = Some ''hwt invalid format''
            \<or> error r = Some ''hwt expired'' \<or> error r = Some ''hwt unknown key''
            \<or> error r = Some ''hwt invalid signature''
            \<or> error r = Some ''hwt data decoding failed''"
    if "verify reg P eng now payload h = Inr r" and "\<not> ok r" for r
  proof -
    from that(1) consider
        (inv) "error r = Some ''hwt invalid''" | (fmt) "error r = Some ''hwt invalid format''"
      | (exp) "error r = Some ''hwt expired''"
      | (sgn) res where "verify_signed reg P eng res (split_on separator payload ! 1)
         (split_on separator payload ! 2) (split_on separator payload ! 3)
         (split_on separator payload ! 4) (split_on separator payload ! 5) h = Inr r"
      by (auto simp: verify_def fail_def Let_def split: if_splits)
    then show ?thesis
    proof cases
      case sgn
      from verify_signed_reports[OF sgn that(2)] show ?thesis using f by auto
    qed auto
  qed
  have created: "assemble reg P eng ep v h = Inl x"
    if "internal_createWith reg P eng ep v h = Inl x" for x ep
    using that f by (auto simp: internal_createWith_def Let_def split: sum.splits if_splits)
  from raised returned created show ?thesis
    by (simp add: create_def createWith_def)
qed

lemma sample_verify_nope:
  "verify sample_registry sample_platform sample_engine 100 ''nope'' None
   = Inr \<lparr>ok = False, data = None, error = Some ''hwt invalid'', validTime = None,
          expired = None, expires = None, withinLeeway = None\<rparr>"
  by (simp add: verify_def prefix_def sample_engine_fields fail_def del: split_on.simps)

theorem default_mode_failures_witness:
  "verify sample_registry sample_platform sample_engine 100 ''nope'' None
   = Inr \<lparr>ok = False, data = None, error = Some ''hwt invalid'', validTime = None,
          expired = None, expires = None, withinLeeway = None\<rparr>
   \<and> create sample_registry sample_platform sample_engine 100 ''hi'' None
   = Inr ''hwt.mZmZmZmZmZmZmZmZmZmZmZmZmZmZmZmZmZmZmZmZmZk.k1.160.j.aGk''"
proof -
  have e: "sample_engine = configure sample_registry default_options sample_keys"
    by (simp add: sample_engine_def)
  note c = sample_create
  from default_mode_failures[OF e, of sample_platform 100 "''nope''" None "''hi''"
         "JsNumber (Finite 60)"]
  show ?thesis using sample_verify_nope c by simp
qed

text \<open>
  C4 as stated fails: the engine with default options raises on a token whose format
  field names no registered codec.
\<close>

theorem default_mode_counterexample:
  "sample_engine = configure sample_registry default_options sample_keys
   \<and> verify sample_registry sample_platform sample_engine 100
       ''hwt.mZmZmZmZmZmZmZmZmZmZmZmZmZmZmZmZmZmZmZmZmZk.k1.160.zz.aGk'' None
     = Inl (Error (''hwt unknown encoding '' @ [CHR 0x22] @ ''zz'' @ [CHR 0x22]))"
proof -
  have s: "split_on separator ''hwt.mZmZmZmZmZmZmZmZmZmZmZmZmZmZmZmZmZmZmZmZmZk.k1.160.zz.aGk''
     = [''hwt'', ''mZmZmZmZmZmZmZmZmZmZmZmZmZmZmZmZmZmZmZmZmZk'', ''k1'', ''160'', ''zz'', ''aGk'']"
    by (simp add: separator_def Let_def)
  have c: "codecs_get sample_registry ''zz'' = Missing"
    by (simp add: codecs_get_def object_get_def sample_registry_def Object_prototype_names_def)
  have "verify sample_registry sample_platform sample_engine 100
       ''hwt.mZmZmZmZmZmZmZmZmZmZmZmZmZmZmZmZmZmZmZmZmZk.k1.160.zz.aGk'' None
     = Inl (Error (''hwt unknown encoding '' @ [CHR 0x22] @ ''zz'' @ [CHR 0x22]))"
    by (simp add: verify_def prefix_def sample_engine_fields s isExpired_100
          verify_signed_def c fail_def unknown_encoding_def Let_def del: split_on.simps)
  then show ?thesis by (simp add: sample_engine_def)
qed


section \<open>Strings that are not base64\<close>

lemma b64_index_pad: "b64_index (CHR ''='') = None"
  by (simp add: b64_index_def b64_alphabet_def)

lemma not_whitespace_pad: "\<not> ascii_whitespace (CHR ''='')"
  by (simp add: ascii_whitespace_def)

lemma strip_padding_keeps_one:
  "CHR ''='' \<in> set (strip_padding (d @ ''===''))"
  by (simp add: strip_padding_def butlast_append)

lemma atob_three_pads: "atob (s @ ''==='') = None"
proof -
  let ?d = "strip_padding (filter (\<lambda>c. \<not> ascii_whitespace c) (s @ ''===''))"
  have "filter (\<lambda>c. \<not> ascii_whitespace c) (s @ ''==='')
        = filter (\<lambda>c. \<not> ascii_whitespace c) s @ ''===''"
    by (simp add: not_whitespace_pad)
  then have "CHR ''='' \<in> set ?d"
    using strip_padding_keeps_one[of "filter (\<lambda>c. \<not> ascii_whitespace c) s"] by simp
  then have "list_ex (\<lambda>c. b64_index c = None) ?d"
    using b64_index_pad by (auto simp: list_ex_iff)
  then show ?thesis by (simp add: atob_def Let_def)
qed

lemma base64url_decode_one_mod_four:
  assumes "length s mod 4 = 1"
  shows "base64urlToUint8Array s = emptyArray"
proof -
  have "(4 - length s mod 4) mod 4 = 3" using assms by simp
  then have "replicate ((4 - length s mod 4) mod 4) (CHR ''='') = ''===''"
    by (simp add: numeral_3_eq_3)
  then show ?thesis
    by (simp add: base64urlToUint8Array_def Let_def atob_three_pads)
qed

lemma timingSafeEqual_undecodable:
  assumes "length a mod 4 = 1" and "length b mod 4 = 1"
  shows "timingSafeEqual (Str a) (Str b)"
  using assms by (simp add: timingSafeEqual_iff base64url_decode_one_mod_four)

section \<open>Hidden input and truncated signatures\<close>

section \<open>Hidden input and truncated signatures\<close>

lemma sample_engine_33_fields:
  "errorOnInvalid sample_engine_33 = False" "errorOnExpired sample_engine_33 = False"
  "errorOnEncoding sample_engine_33 = True" "errorOnGenerate sample_engine_33 = True"
  "expiresInSeconds sample_engine_33 = 60" "leewaySeconds sample_engine_33 = 1"
  "maxTokenSizeBytes sample_engine_33 = 2048" "signatureSize sample_engine_33 = 33"
  "algorithm sample_engine_33 = ''SHA-256''" "format sample_engine_33 = ''j''"
  "keys sample_engine_33 = sample_keys"
  by (simp_all add: sample_engine_33_def configure_def default_options_def numeric_def
       supports_def truthy_def fround_numeral fround_zero fround_one Let_def)

lemma base64url_pw: "bufferToBase64Url (stringToBuffer ''pw'') = ''cHc''"
  by (simp add: bufferToBase64Url_def stringToBuffer_def b64_char_def b64_alphabet_def Let_def)

lemma base64url_other: "bufferToBase64Url (stringToBuffer ''other'') = ''b3RoZXI''"
  by (simp add: bufferToBase64Url_def stringToBuffer_def b64_char_def b64_alphabet_def Let_def)

lemma sample_mac_pw:
  "sample_hmac ''SHA-256'' (replicate 32 1) (stringToBuffer ''160.j.aGk.cHc'') = replicate 32 217"
  by (simp add: sample_hmac_def stringToBuffer_def sum_list_replicate)

lemma sample_mac_other:
  "sample_hmac ''SHA-256'' (replicate 32 1) (stringToBuffer ''160.j.aGk.b3RoZXI'')
   = replicate 32 32"
  by (simp add: sample_hmac_def stringToBuffer_def sum_list_replicate)

lemma btoa_mac_pw:
  "btoa (replicate 32 217) = ''2dnZ2dnZ2dnZ2dnZ2dnZ2dnZ2dnZ2dnZ2dnZ2dnZ2dk=''"
  by (simp add: replicate_32 b64_char_def b64_alphabet_def Let_def)

lemma btoa_mac_other:
  "btoa (replicate 32 32) = ''ICAgICAgICAgICAgICAgICAgICAgICAgICAgICAgICA=''"
  by (simp add: replicate_32 b64_char_def b64_alphabet_def Let_def)

lemma signature_33_pw:
  "take 33 (bufferToBase64Url
              (sample_hmac ''SHA-256'' (replicate 32 1) (stringToBuffer ''160.j.aGk.cHc'')))
   = ''2dnZ2dnZ2dnZ2dnZ2dnZ2dnZ2dnZ2dnZ2''"
  by (simp add: sample_mac_pw bufferToBase64Url_def btoa_mac_pw del: btoa.simps)

lemma signature_33_plain:
  "take 33 (bufferToBase64Url
              (sample_hmac ''SHA-256'' (replicate 32 1) (stringToBuffer ''160.j.aGk'')))
   = ''mZmZmZmZmZmZmZmZmZmZmZmZmZmZmZmZm''"
  by (simp add: sample_mac_160 bufferToBase64Url_def btoa_mac_160 del: btoa.simps)

lemma signature_33_other:
  "take 33 (bufferToBase64Url
              (sample_hmac ''SHA-256'' (replicate 32 1) (stringToBuffer ''160.j.aGk.b3RoZXI'')))
   = ''ICAgICAgICAgICAgICAgICAgICAgICAgI''"
  by (simp add: sample_mac_other bufferToBase64Url_def btoa_mac_other del: btoa.simps)

lemma createWith_33:
  "createWith sample_registry sample_platform sample_engine_33 100 (JsNumber (Finite 60))
     ''hi'' (Some ''pw'')
   = Inr ''hwt.2dnZ2dnZ2dnZ2dnZ2dnZ2dnZ2dnZ2dnZ2.k1.160.j.aGk''"
  by (simp add: createWith_def expiresAt_def lifetime_def numeric_def number_add_def
        fround_numeral internal_createWith_def assemble_def signing_input_def
        sample_engine_33_fields sample_registry_j codec_encode_def
        text_codec_def base64url_hi base64url_pw String_of_number_160 separator_def prefix_def
        sample_keys_get sample_generate_33 signature_33_pw Let_def)

lemma split_33:
  "split_on separator ''hwt.2dnZ2dnZ2dnZ2dnZ2dnZ2dnZ2dnZ2dnZ2.k1.160.j.aGk''
   = [''hwt'', ''2dnZ2dnZ2dnZ2dnZ2dnZ2dnZ2dnZ2dnZ2'', ''k1'', ''160'', ''j'', ''aGk'']"
  by (simp add: separator_def Let_def)

lemma compare_33_plain:
  "timingSafeEqual (Str ''2dnZ2dnZ2dnZ2dnZ2dnZ2dnZ2dnZ2dnZ2'')
     (Str ''mZmZmZmZmZmZmZmZmZmZmZmZmZmZmZmZm'')"
  by (rule timingSafeEqual_undecodable) simp_all

lemma compare_33_other:
  "timingSafeEqual (Str ''2dnZ2dnZ2dnZ2dnZ2dnZ2dnZ2dnZ2dnZ2'')
     (Str ''ICAgICAgICAgICAgICAgICAgICAgICAgI'')"
  by (rule timingSafeEqual_undecodable) simp_all

lemma verify_signed_33_plain:
  "verify_signed sample_registry sample_platform sample_engine_33 res
     ''2dnZ2dnZ2dnZ2dnZ2dnZ2dnZ2dnZ2dnZ2'' ''k1'' ''160'' ''j'' ''aGk'' None
   = Inr (res\<lparr>ok := True, data := Some ''hi''\<rparr>)"
  by (simp add: verify_signed_def sample_engine_33_fields sample_registry_j sample_keys_get
        signing_input_def separator_def sample_generate_33 signature_33_plain compare_33_plain
        codec_decode_def base64url_decode_aGk text_codec_def char_of_eval Let_def)

lemma verify_signed_33_other:
  "verify_signed sample_registry sample_platform sample_engine_33 res
     ''2dnZ2dnZ2dnZ2dnZ2dnZ2dnZ2dnZ2dnZ2'' ''k1'' ''160'' ''j'' ''aGk'' (Some ''other'')
   = Inr (res\<lparr>ok := True, data := Some ''hi''\<rparr>)"
  by (simp add: verify_signed_def sample_engine_33_fields sample_registry_j sample_keys_get
        signing_input_def separator_def codec_encode_def base64url_other sample_generate_33
        signature_33_other compare_33_other
        codec_decode_def base64url_decode_aGk text_codec_def char_of_eval Let_def)

text \<open>
  C1 at a failing input.  The engine is configured with \<open>signatureSize = 33\<close>.  A token is
  created with the hidden input \<open>pw\<close>; the sample MAC of its signing input differs from the
  MACs of the signing inputs without hidden input and with the hidden input \<open>other\<close>.
  Still \<open>verify\<close> accepts the token without any hidden input and with the wrong one: a
  signature cut to 33 characters is not base64, both operands of the comparison decode to
  the empty array, and the comparison succeeds.
\<close>

theorem hidden_binding_truncated_signature:
  "createWith sample_registry sample_platform sample_engine_33 100 (JsNumber (Finite 60))
     ''hi'' (Some ''pw'')
   = Inr ''hwt.2dnZ2dnZ2dnZ2dnZ2dnZ2dnZ2dnZ2dnZ2.k1.160.j.aGk''
   \<and> verify sample_registry sample_platform sample_engine_33 100
       ''hwt.2dnZ2dnZ2dnZ2dnZ2dnZ2dnZ2dnZ2dnZ2.k1.160.j.aGk'' None
     = Inr \<lparr>ok = True, data = Some ''hi'', error = None, validTime = Some True,
            expired = Some False, expires = Some (Finite 160), withinLeeway = None\<rparr>
   \<and> verify sample_registry sample_platform sample_engine_33 100
       ''hwt.2dnZ2dnZ2dnZ2dnZ2dnZ2dnZ2dnZ2dnZ2.k1.160.j.aGk'' (Some ''other'')
     = Inr \<lparr>ok = True, data = Some ''hi'', error = None, validTime = Some True,
            expired = Some False, expires = Some (Finite 160), withinLeeway = None\<rparr>
   \<and> sample_hmac ''SHA-256'' (replicate 32 1) (stringToBuffer ''160.j.aGk.cHc'')
       \<noteq> sample_hmac ''SHA-256'' (replicate 32 1) (stringToBuffer ''160.j.aGk'')
   \<and> sample_hmac ''SHA-256'' (replicate 32 1) (stringToBuffer ''160.j.aGk.cHc'')
       \<noteq> sample_hmac ''SHA-256'' (replicate 32 1) (stringToBuffer ''160.j.aGk.b3RoZXI'')"
proof -
  have a: "verify sample_registry sample_platform sample_engine_33 100
       ''hwt.2dnZ2dnZ2dnZ2dnZ2dnZ2dnZ2dnZ2dnZ2.k1.160.j.aGk'' None
     = Inr \<lparr>ok = True, data = Some ''hi'', error = None, validTime = Some True,
            expired = Some False, expires = Some (Finite 160), withinLeeway = None\<rparr>"
    by (simp add: verify_def prefix_def sample_engine_33_fields split_33 isExpired_100
          verify_signed_33_plain Let_def del: split_on.simps)
  have b: "verify sample_registry sample_platform sample_engine_33 100
       ''hwt.2dnZ2dnZ2dnZ2dnZ2dnZ2dnZ2dnZ2dnZ2.k1.160.j.aGk'' (Some ''other'')
     = Inr \<lparr>ok = True, data = Some ''hi'', error = None, validTime = Some True,
            expired = Some False, expires = Some (Finite 160), withinLeeway = None\<rparr>"
    by (simp add: verify_def prefix_def sample_engine_33_fields split_33 isExpired_100
          verify_signed_33_other Let_def del: split_on.simps)
  have c: "sample_hmac ''SHA-256'' (replicate 32 1) (stringToBuffer ''160.j.aGk.cHc'')
       \<noteq> sample_hmac ''SHA-256'' (replicate 32 1) (stringToBuffer ''160.j.aGk'')"
    by (simp add: sample_mac_pw sample_mac_160)
  have d: "sample_hmac ''SHA-256'' (replicate 32 1) (stringToBuffer ''160.j.aGk.cHc'')
       \<noteq> sample_hmac ''SHA-256'' (replicate 32 1) (stringToBuffer ''160.j.aGk.b3RoZXI'')"
    by (simp add: sample_mac_pw sample_mac_other)
  from createWith_33 a b c d show ?thesis by blast
qed


section \<open>The codec of a token without a format name\<close>

lemma sample_engine_jx_fields:
  "errorOnInvalid sample_engine_jx = False" "errorOnExpired sample_engine_jx = False"
  "errorOnEncoding sample_engine_jx = True" "errorOnGenerate sample_engine_jx = True"
  "expiresInSeconds sample_engine_jx = 60" "leewaySeconds sample_engine_jx = 1"
  "maxTokenSizeBytes sample_engine_jx = 2048" "signatureSize sample_engine_jx = 0"
  "algorithm sample_engine_jx = ''SHA-256''" "format sample_engine_jx = ''jx''"
  "keys sample_engine_jx = sample_keys"
  by (simp_all add: sample_engine_jx_def configure_def default_options_def numeric_def
       supports_def truthy_def fround_numeral fround_zero fround_one sample_registry_jx Let_def)

lemma sample_mac_noformat:
  "sample_hmac ''SHA-256'' (replicate 32 1) (stringToBuffer ''160..aGk'') = replicate 32 46"
  by (simp add: sample_hmac_def stringToBuffer_def sum_list_replicate)

lemma btoa_mac_noformat:
  "btoa (replicate 32 46) = ''Li4uLi4uLi4uLi4uLi4uLi4uLi4uLi4uLi4uLi4uLi4=''"
  by (simp add: replicate_32 b64_char_def b64_alphabet_def Let_def)

lemma signature_noformat:
  "bufferToBase64Url (sample_hmac ''SHA-256'' (replicate 32 1) (stringToBuffer ''160..aGk''))
   = ''Li4uLi4uLi4uLi4uLi4uLi4uLi4uLi4uLi4uLi4uLi4''"
  by (simp add: sample_mac_noformat bufferToBase64Url_def btoa_mac_noformat del: btoa.simps)

lemma split_noformat:
  "split_on separator ''hwt.Li4uLi4uLi4uLi4uLi4uLi4uLi4uLi4uLi4uLi4uLi4.k1.160..aGk''
   = [''hwt'', ''Li4uLi4uLi4uLi4uLi4uLi4uLi4uLi4uLi4uLi4uLi4'', ''k1'', ''160'', '''', ''aGk'']"
  by (simp add: separator_def Let_def)

lemma verify_signed_jx_noformat:
  "verify_signed sample_registry sample_platform sample_engine_jx res
     ''Li4uLi4uLi4uLi4uLi4uLi4uLi4uLi4uLi4uLi4uLi4'' ''k1'' ''160'' '''' ''aGk'' None
   = Inr (res\<lparr>ok := True, data := Some ''jx:hi''\<rparr>)"
  by (simp add: verify_signed_def sample_engine_jx_fields sample_registry_jx sample_keys_get
        signing_input_def separator_def sample_generate signature_noformat
        timingSafeEqual_same codec_decode_def
        base64url_decode_aGk marked_codec_def char_of_eval Let_def)

text \<open>
  C6 at a failing input.  The engine is configured with the format \<open>jx\<close>; the token has an
  empty format field and a good signature.  \<open>verify\<close> decodes its payload with the
  codec registered as \<open>jx\<close> (which yields \<open>jx:hi\<close>), not with the codec registered as \<open>j\<close>
  (which yields \<open>hi\<close>).
\<close>

theorem empty_format_uses_configured_codec:
  "format sample_engine_jx = ''jx''
   \<and> verify sample_registry sample_platform sample_engine_jx 100
       ''hwt.Li4uLi4uLi4uLi4uLi4uLi4uLi4uLi4uLi4uLi4uLi4.k1.160..aGk'' None
     = Inr \<lparr>ok = True, data = Some ''jx:hi'', error = None, validTime = Some True,
            expired = Some False, expires = Some (Finite 160), withinLeeway = None\<rparr>
   \<and> codec_decode (codecs_get sample_registry ''j'') (base64urlToUint8Array ''aGk'')
     = Inr ''hi''"
proof -
  have a: "verify sample_registry sample_platform sample_engine_jx 100
       ''hwt.Li4uLi4uLi4uLi4uLi4uLi4uLi4uLi4uLi4uLi4uLi4.k1.160..aGk'' None
     = Inr \<lparr>ok = True, data = Some ''jx:hi'', error = None, validTime = Some True,
            expired = Some False, expires = Some (Finite 160), withinLeeway = None\<rparr>"
    by (simp add: verify_def prefix_def sample_engine_jx_fields split_noformat isExpired_100
          verify_signed_jx_noformat Let_def del: split_on.simps)
  have b: "codec_decode (codecs_get sample_registry ''j'') (base64urlToUint8Array ''aGk'')
     = Inr ''hi''"
    by (simp add: sample_registry_j codec_decode_def base64url_decode_aGk text_codec_def
          char_of_eval)
  from a b show ?thesis by (simp add: sample_engine_jx_fields)
qed


text \<open>A format field that names a property of \<open>Object.prototype\<close> is not reported as an
  unknown encoding either: the lookup yields a value that is not a codec, and verification
  goes on to the signature.\<close>

lemma inherited_format_name:
  "verify sample_registry sample_platform sample_engine 100
       ''hwt.kJCQkJCQkJCQkJCQkJCQkJCQkJCQkJCQkJCQkJCQkJA.k1.160.toString.aGk'' None
   = Inr \<lparr>ok = False, data = None, error = Some ''hwt data decoding failed'',
          validTime = Some True, expired = Some False, expires = Some (Finite 160),
          withinLeeway = None\<rparr>"
proof -
  have s: "split_on separator
             ''hwt.kJCQkJCQkJCQkJCQkJCQkJCQkJCQkJCQkJCQkJCQkJA.k1.160.toString.aGk''
     = [''hwt'', ''kJCQkJCQkJCQkJCQkJCQkJCQkJCQkJCQkJCQkJCQkJA'', ''k1'', ''160'',
        ''toString'', ''aGk'']"
    by (simp add: separator_def Let_def)
  have c: "codecs_get sample_registry ''toString'' = Foreign"
    by (simp add: codecs_get_def object_get_def sample_registry_def Object_prototype_names_def)
  have m: "sample_hmac ''SHA-256'' (replicate 32 1) (stringToBuffer ''160.toString.aGk'')
           = replicate 32 144"
    by (simp add: sample_hmac_def stringToBuffer_def sum_list_replicate)
  have b: "btoa (replicate 32 144) = ''kJCQkJCQkJCQkJCQkJCQkJCQkJCQkJCQkJCQkJCQkJA=''"
    by (simp add: replicate_32 b64_char_def b64_alphabet_def Let_def)
  have g: "bufferToBase64Url
             (sample_hmac ''SHA-256'' (replicate 32 1) (stringToBuffer ''160.toString.aGk''))
     = ''kJCQkJCQkJCQkJCQkJCQkJCQkJCQkJCQkJCQkJCQkJA''"
    by (simp add: m bufferToBase64Url_def b del: btoa.simps)
  have v: "verify_signed sample_registry sample_platform sample_engine res
     ''kJCQkJCQkJCQkJCQkJCQkJCQkJCQkJCQkJCQkJCQkJA'' ''k1'' ''160'' ''toString'' ''aGk'' None
     = Inr (res\<lparr>data := None, ok := False, error := Some ''hwt data decoding failed''\<rparr>)"
    for res :: "string result"
    by (simp add: verify_signed_def sample_engine_fields c sample_keys_get signing_input_def
          separator_def sample_generate g timingSafeEqual_same codec_decode_def Let_def)
  show ?thesis
    by (simp add: verify_def prefix_def sample_engine_fields s isExpired_100 v Let_def
          del: split_on.simps)
qed

section \<open>Keys and rotation\<close>

text \<open>\<open>verify\<close> reads the keys only at the token's key id: two engines with the same
  options whose key objects hold the same value under that id give the same result,
  whichever key is current.\<close>

lemma isExpired_keys: "isExpired (eng\<lparr>keys := ks\<rparr>) now e = isExpired eng now e"
  by (simp add: isExpired_def Let_def)

lemma generate_keys: "generate P (eng\<lparr>keys := ks\<rparr>) t k = generate P eng t k"
  by (simp add: generate_def Let_def cong: option.case_cong if_cong)

lemma verify_signed_keys:
  assumes "keys_get ks kid = keys_get (keys eng) kid"
  shows "verify_signed reg P (eng\<lparr>keys := ks\<rparr>) res sig kid e fmt shown h
         = verify_signed reg P eng res sig kid e fmt shown h"
  by (simp add: verify_signed_def generate_keys assms Let_def
        cong: sum.case_cong option.case_cong generated.case_cong if_cong)

lemma verify_reads_token_key:
  assumes "keys_get ks (split_on separator payload ! 2)
           = keys_get (keys eng) (split_on separator payload ! 2)"
  shows "verify reg P (eng\<lparr>keys := ks\<rparr>) now payload h = verify reg P eng now payload h"
  by (simp add: verify_def isExpired_keys verify_signed_keys[OF assms] Let_def)


lemma sample_keys_absent:
  "keys_get sample_keys ''k9'' = Missing"
  "keys_get sample_keys ''constructor'' = Foreign"
  by (simp_all add: keys_get_def sample_keys_def Object_prototype_names_def Let_def)

lemma verify_unknown_key:
  "verify sample_registry sample_platform sample_engine 100
     ''hwt.mZmZmZmZmZmZmZmZmZmZmZmZmZmZmZmZmZmZmZmZmZk.k9.160.j.aGk'' None
   = Inr \<lparr>ok = False, data = None, error = Some ''hwt unknown key'', validTime = Some True,
          expired = Some False, expires = Some (Finite 160), withinLeeway = None\<rparr>"
proof -
  have s: "split_on separator ''hwt.mZmZmZmZmZmZmZmZmZmZmZmZmZmZmZmZmZmZmZmZmZk.k9.160.j.aGk''
     = [''hwt'', ''mZmZmZmZmZmZmZmZmZmZmZmZmZmZmZmZmZmZmZmZmZk'', ''k9'', ''160'', ''j'', ''aGk'']"
    by (simp add: separator_def Let_def)
  show ?thesis
    by (simp add: verify_def prefix_def sample_engine_fields s isExpired_100
          verify_signed_def signing_input_def sample_registry_j sample_keys_absent fail_def
          Let_def del: split_on.simps)
qed

text \<open>
  C9 at a failing input.  The keyring holds the ids \<open>k1\<close> and \<open>k2\<close>.  A token whose key id
  is \<open>current\<close>, signed with the current key, is accepted, because the current key is kept
  in the same object under the name \<open>current\<close>; a token whose key id is \<open>constructor\<close>
  makes \<open>verify\<close> raise.  Neither yields the error \<open>hwt unknown key\<close>.
\<close>

theorem key_id_not_in_keyring:
  "map spec_id (kr_keys sample_keyring) = [''k1'', ''k2'']
   \<and> fst (importKeys sample_platform ''SHA-256'' sample_keyring) = Inr (keys sample_engine)
   \<and> verify sample_registry sample_platform sample_engine 100
       ''hwt.mZmZmZmZmZmZmZmZmZmZmZmZmZmZmZmZmZmZmZmZmZk.current.160.j.aGk'' None
     = Inr \<lparr>ok = True, data = Some ''hi'', error = None, validTime = Some True,
            expired = Some False, expires = Some (Finite 160), withinLeeway = None\<rparr>
   \<and> verify sample_registry sample_platform sample_engine 100
       ''hwt.mZmZmZmZmZmZmZmZmZmZmZmZmZmZmZmZmZmZmZmZmZk.constructor.160.j.aGk'' None
     = Inl (Error ''hwt failed to generate HMAC signature'')"
proof -
  have s1: "split_on separator
              ''hwt.mZmZmZmZmZmZmZmZmZmZmZmZmZmZmZmZmZmZmZmZmZk.current.160.j.aGk''
     = [''hwt'', ''mZmZmZmZmZmZmZmZmZmZmZmZmZmZmZmZmZmZmZmZmZk'', ''current'', ''160'', ''j'',
        ''aGk'']"
    by (simp add: separator_def Let_def)
  have s2: "split_on separator
              ''hwt.mZmZmZmZmZmZmZmZmZmZmZmZmZmZmZmZmZmZmZmZmZk.constructor.160.j.aGk''
     = [''hwt'', ''mZmZmZmZmZmZmZmZmZmZmZmZmZmZmZmZmZmZmZmZmZk'', ''constructor'', ''160'',
        ''j'', ''aGk'']"
    by (simp add: separator_def Let_def)
  have v1: "verify_signed sample_registry sample_platform sample_engine res
     ''mZmZmZmZmZmZmZmZmZmZmZmZmZmZmZmZmZmZmZmZmZk'' ''current'' ''160'' ''j'' ''aGk'' None
     = Inr (res\<lparr>ok := True, data := Some ''hi''\<rparr>)" for res :: "string result"
    by (simp add: verify_signed_def sample_engine_fields sample_registry_j sample_keys_get
          signing_input_def separator_def sample_generate sample_signature_160
          timingSafeEqual_same codec_decode_def
          base64url_decode_aGk text_codec_def char_of_eval Let_def)
  have v2: "verify_signed sample_registry sample_platform sample_engine res
     ''mZmZmZmZmZmZmZmZmZmZmZmZmZmZmZmZmZmZmZmZmZk'' ''constructor'' ''160'' ''j'' ''aGk'' None
     = Inl (Error ''hwt failed to generate HMAC signature'')" for res :: "string result"
    by (simp add: verify_signed_def sample_engine_fields sample_registry_j sample_keys_absent
          signing_input_def generate_def Let_def)
  have a: "verify sample_registry sample_platform sample_engine 100
       ''hwt.mZmZmZmZmZmZmZmZmZmZmZmZmZmZmZmZmZmZmZmZmZk.current.160.j.aGk'' None
     = Inr \<lparr>ok = True, data = Some ''hi'', error = None, validTime = Some True,
            expired = Some False, expires = Some (Finite 160), withinLeeway = None\<rparr>"
    by (simp add: verify_def prefix_def sample_engine_fields s1 isExpired_100 v1 Let_def
          del: split_on.simps)
  have b: "verify sample_registry sample_platform sample_engine 100
       ''hwt.mZmZmZmZmZmZmZmZmZmZmZmZmZmZmZmZmZmZmZmZmZk.constructor.160.j.aGk'' None
     = Inl (Error ''hwt failed to generate HMAC signature'')"
    by (simp add: verify_def prefix_def sample_engine_fields s2 isExpired_100 v2 Let_def
          del: split_on.simps)
  have c: "map spec_id (kr_keys sample_keyring) = [''k1'', ''k2'']"
    by (simp add: sample_keyring_def sample_spec_def)
  from a b c sample_importKeys show ?thesis by (simp add: sample_engine_fields)
qed

section \<open>What the failing runs return\<close>

theorem hidden_binding_truncated_signature_witness:
  "map_sum id ok
     (verify sample_registry sample_platform sample_engine_33 100
        ''hwt.2dnZ2dnZ2dnZ2dnZ2dnZ2dnZ2dnZ2dnZ2.k1.160.j.aGk'' None)
   = Inr True"
  using hidden_binding_truncated_signature by simp

theorem empty_format_uses_configured_codec_witness:
  "map_sum id data
     (verify sample_registry sample_platform sample_engine_jx 100
       ''hwt.Li4uLi4uLi4uLi4uLi4uLi4uLi4uLi4uLi4uLi4uLi4.k1.160..aGk'' None)
   = Inr (Some ''jx:hi'')"
  using empty_format_uses_configured_codec by simp

theorem key_id_not_in_keyring_witness:
  "map_sum id error
     (verify sample_registry sample_platform sample_engine 100
       ''hwt.mZmZmZmZmZmZmZmZmZmZmZmZmZmZmZmZmZmZmZmZmZk.current.160.j.aGk'' None)
   = Inr None"
  using key_id_not_in_keyring by simp

end
